theory Spec2Isabelle
  imports Complex_Main
begin

section \<open>Numbers\<close>

text \<open>
  The program is JavaScript; every number in it is an IEEE double. The embedding reads
  integer-valued quantities (seeds, table indices, loop counters) as \<open>int\<close> or \<open>nat\<close> and
  all other quantities as \<open>real\<close>: arithmetic is exact, there is no rounding, no NaN and no
  infinity. For the generator state the reading is exact as long as the product
  \<open>seed * 16807\<close> stays below \<open>2 ^ 53\<close> in absolute value, which holds for every state
  the generator reaches from a seed below \<open>2 ^ 31\<close>. \<open>Math.cos\<close>, \<open>Math.sin\<close>,
  \<open>Math.acos\<close>, \<open>Math.exp\<close>, \<open>Math.sqrt\<close>, \<open>Math.floor\<close> and \<open>Math.PI\<close> are the
  functions \<open>cos\<close>, \<open>sin\<close>, \<open>arccos\<close>, \<open>exp\<close>, \<open>sqrt\<close>, \<open>floor\<close> and the constant
  \<open>pi\<close> of the reals. Where the source would divide by zero (a configuration of total
  mass 0, a thermal of maximum altitude 0, \<open>fbm\<close> with no octave) it computes with an
  infinity or NaN, while the division of the reals gives 0: the embedding describes the
  source where every divisor is different from 0.
\<close>

text \<open>
  The remainder operator \<^verbatim>\<open>%\<close> of JavaScript truncates: the result has the sign of the
  dividend.
\<close>

definition js_rem :: "int \<Rightarrow> int \<Rightarrow> int" where
  "js_rem a b = sgn a * (\<bar>a\<bar> mod \<bar>b\<bar>)"

section \<open>noise.js: SeededRandom\<close>

text \<open>
  \<^verbatim>\<open>
  export class SeededRandom {
    constructor(seed = 12345) { this.seed = seed; }
    next() {
      this.seed = (this.seed * 16807 + 0) % 2147483647;
      return (this.seed - 1) / 2147483646;
    }
    nextRange(min, max) { return min + this.next() * (max - min); }
    nextInt(min, max) { return Math.floor(this.nextRange(min, max)); }
  }
  \<close>
  The object is its field; a method returns its value together with the updated object.
\<close>

record SeededRandom =
  seed :: int

definition SeededRandom_new :: "int \<Rightarrow> SeededRandom" where
  "SeededRandom_new s = \<lparr>seed = s\<rparr>"

definition rng_next :: "SeededRandom \<Rightarrow> real \<times> SeededRandom" where
  "rng_next r =
     (let s = js_rem (seed r * 16807 + 0) 2147483647
      in (real_of_int (s - 1) / 2147483646, r\<lparr>seed := s\<rparr>))"

definition nextRange :: "SeededRandom \<Rightarrow> real \<Rightarrow> real \<Rightarrow> real \<times> SeededRandom" where
  "nextRange r lo hi = (let (u, r') = rng_next r in (lo + u * (hi - lo), r'))"

definition nextInt :: "SeededRandom \<Rightarrow> real \<Rightarrow> real \<Rightarrow> int \<times> SeededRandom" where
  "nextInt r lo hi = (let (u, r') = nextRange r lo hi in (\<lfloor>u\<rfloor>, r'))"

text \<open>The \<open>n\<close>-th value returned by \<open>next()\<close> on a fresh generator, \<open>n\<close> counted from 1.\<close>

fun nth_next :: "nat \<Rightarrow> SeededRandom \<Rightarrow> real" where
  "nth_next 0 r = fst (rng_next r)"
| "nth_next (Suc n) r = nth_next n (snd (rng_next r))"

definition nth_value :: "int \<Rightarrow> nat \<Rightarrow> real" where
  "nth_value s n = nth_next (n - 1) (SeededRandom_new s)"

section \<open>noise.js: PerlinNoise\<close>

text \<open>
  A noise field holds its seed, the 512-entry table \<open>perm\<close> (a \<^verbatim>\<open>Uint8Array\<close>) and the
  256 gradient vectors \<open>grad\<close>.
\<close>

record PerlinNoise =
  pn_seed :: int
  perm :: "nat list"
  grad :: "(real \<times> real) list"

text \<open>
  \<^verbatim>\<open>[p[i], p[j]] = [p[j], p[i]]\<close> on a \<^verbatim>\<open>Uint8Array\<close> of length 256: both reads come
  first. A read outside the array is \<^verbatim>\<open>undefined\<close>, which is stored as \<open>0\<close>; a write
  outside the array is ignored.
\<close>

definition swap_u8 :: "nat list \<Rightarrow> nat \<Rightarrow> int \<Rightarrow> nat list" where
  "swap_u8 p i j =
     (if 0 \<le> j \<and> j < int (length p) then (p[i := p ! nat j])[nat j := p ! i]
      else p[i := 0])"

text \<open>
  The Fisher-Yates loop \<^verbatim>\<open>for (let i = 255; i > 0; i--)\<close>; the first argument is \<open>i\<close>.
\<close>

fun shuffle :: "nat \<Rightarrow> nat list \<Rightarrow> SeededRandom \<Rightarrow> nat list \<times> SeededRandom" where
  "shuffle 0 p rng = (p, rng)"
| "shuffle (Suc k) p rng =
     (case nextInt rng 0 (real (Suc k) + 1) of
        (j, rng') \<Rightarrow> shuffle k (swap_u8 p (Suc k) j) rng')"

text \<open>
  The gradient loop \<^verbatim>\<open>for (let i = 0; i < 256; i++)\<close>; the first argument counts the
  draws still to make.
\<close>

fun gradients :: "nat \<Rightarrow> SeededRandom \<Rightarrow> (real \<times> real) list \<times> SeededRandom" where
  "gradients 0 rng = ([], rng)"
| "gradients (Suc n) rng =
     (case rng_next rng of
        (u, rng') \<Rightarrow>
          (let a = u * pi * 2 in
           case gradients n rng' of
             (rest, rng'') \<Rightarrow> ((cos a, sin a) # rest, rng'')))"

definition PerlinNoise_init :: "int \<Rightarrow> nat list \<times> (real \<times> real) list" where
  "PerlinNoise_init s =
     (let rng = SeededRandom_new s;
          p = [0..<256];
          (p', rng') = shuffle 255 p rng;
          pm = map (\<lambda>i. p' ! (i mod 256)) [0..<512];
          (angles, rng'') = gradients 256 rng'
      in (pm, angles))"

definition PerlinNoise_new :: "int \<Rightarrow> PerlinNoise" where
  "PerlinNoise_new s =
     (let (pm, g) = PerlinNoise_init s in \<lparr>pn_seed = s, perm = pm, grad = g\<rparr>)"

definition pn_fade :: "real \<Rightarrow> real" where
  "pn_fade t = t * t * t * (t * (t * 6 - 15) + 10)"

definition pn_lerp :: "real \<Rightarrow> real \<Rightarrow> real \<Rightarrow> real" where
  "pn_lerp a b t = a + t * (b - a)"

definition pn_dot :: "PerlinNoise \<Rightarrow> nat \<Rightarrow> real \<Rightarrow> real \<Rightarrow> real" where
  "pn_dot pn gi x y = (let g = grad pn ! (gi mod 256) in fst g * x + snd g * y)"

text \<open>
  \<^verbatim>\<open>Math.floor(x) & 255\<close> is the floor reduced modulo 256, never negative. The
  table reads stay inside \<open>perm\<close> and \<open>grad\<close> for a field with 512 table entries below
  256 and 256 gradients, which is what the constructor builds.
\<close>

definition noise2D :: "PerlinNoise \<Rightarrow> real \<Rightarrow> real \<Rightarrow> real" where
  "noise2D pn x y =
     (let xi = nat (\<lfloor>x\<rfloor> mod 256);
          yi = nat (\<lfloor>y\<rfloor> mod 256);
          xf = x - real_of_int \<lfloor>x\<rfloor>;
          yf = y - real_of_int \<lfloor>y\<rfloor>;
          u = pn_fade xf;
          v = pn_fade yf;
          aa = perm pn ! (perm pn ! xi + yi);
          ab = perm pn ! (perm pn ! xi + yi + 1);
          ba = perm pn ! (perm pn ! (xi + 1) + yi);
          bb = perm pn ! (perm pn ! (xi + 1) + yi + 1);
          x1 = pn_lerp (pn_dot pn aa xf yf) (pn_dot pn ba (xf - 1) yf) u;
          x2 = pn_lerp (pn_dot pn ab xf (yf - 1)) (pn_dot pn bb (xf - 1) (yf - 1)) u
      in pn_lerp x1 x2 v)"

text \<open>
  The octave loop of \<open>fbm\<close>: the counter is the number of octaves still to add, the
  accumulators are \<open>sm\<close> (the source's \<^verbatim>\<open>sum\<close>), \<open>amp\<close>, \<open>freq\<close> and \<open>maxAmp\<close>. The callers pass the octave
  count only; \<open>lacunarity = 2.0\<close> and \<open>gain = 0.5\<close> are the defaults.
\<close>

fun fbm_loop ::
  "PerlinNoise \<Rightarrow> real \<Rightarrow> real \<Rightarrow> real \<Rightarrow> real \<Rightarrow> nat \<Rightarrow> real \<Rightarrow> real \<Rightarrow> real \<Rightarrow> real \<Rightarrow> real \<times> real"
where
  "fbm_loop pn x y lacunarity gain 0 sm amp freq maxAmp = (sm, maxAmp)"
| "fbm_loop pn x y lacunarity gain (Suc n) sm amp freq maxAmp =
     fbm_loop pn x y lacunarity gain n
       (sm + noise2D pn (x * freq) (y * freq) * amp) (amp * gain) (freq * lacunarity)
       (maxAmp + amp)"

definition fbm_full :: "PerlinNoise \<Rightarrow> real \<Rightarrow> real \<Rightarrow> nat \<Rightarrow> real \<Rightarrow> real \<Rightarrow> real" where
  "fbm_full pn x y octaves lacunarity gain =
     (case fbm_loop pn x y lacunarity gain octaves 0 1 1 0 of
        (sm, maxAmp) \<Rightarrow> sm / maxAmp)"

definition fbm :: "PerlinNoise \<Rightarrow> real \<Rightarrow> real \<Rightarrow> nat \<Rightarrow> real" where
  "fbm pn x y octaves = fbm_full pn x y octaves 2.0 0.5"

fun ridge_loop ::
  "PerlinNoise \<Rightarrow> real \<Rightarrow> real \<Rightarrow> nat \<Rightarrow> real \<Rightarrow> real \<Rightarrow> real \<Rightarrow> real \<Rightarrow> real \<times> real"
where
  "ridge_loop pn x y 0 sm amp freq maxAmp = (sm, maxAmp)"
| "ridge_loop pn x y (Suc k) sm amp freq maxAmp =
     (let n = \<bar>noise2D pn (x * freq) (y * freq)\<bar>;
          n = 1.0 - n;
          n = n * n
      in ridge_loop pn x y k (sm + n * amp) (amp * 0.5) (freq * 2.0) (maxAmp + amp))"

definition ridgeNoise :: "PerlinNoise \<Rightarrow> real \<Rightarrow> real \<Rightarrow> nat \<Rightarrow> real" where
  "ridgeNoise pn x y octaves =
     (case ridge_loop pn x y octaves 0 1 1 0 of (sm, maxAmp) \<Rightarrow> sm / maxAmp)"

section \<open>noise.js: biome and terrain height\<close>

datatype BIOME = OCEAN | PLAINS | MOUNTAINS | ISLAND | AIRPORT

definition getBiome :: "real \<Rightarrow> real \<Rightarrow> PerlinNoise \<Rightarrow> PerlinNoise \<Rightarrow> PerlinNoise \<Rightarrow> BIOME" where
  "getBiome x z terrainNoise biomeNoise islandNoise =
     (let bn = fbm biomeNoise (x * 0.0003) (z * 0.0003) 4;
          inl = fbm islandNoise (x * 0.002) (z * 0.002) 3
      in if bn < - 0.15 then (if inl > 0.25 then ISLAND else OCEAN)
         else (let tn = fbm terrainNoise (x * 0.0008) (z * 0.0008) 4
               in if tn > 0.3 then MOUNTAINS else PLAINS))"

definition getTerrainHeight :: "real \<Rightarrow> real \<Rightarrow> PerlinNoise \<Rightarrow> PerlinNoise \<Rightarrow> PerlinNoise \<Rightarrow> real" where
  "getTerrainHeight x z terrainNoise biomeNoise islandNoise =
     (let biome = getBiome x z terrainNoise biomeNoise islandNoise;
          base = fbm terrainNoise (x * 0.001) (z * 0.001) 6;
          detail = fbm terrainNoise (x * 0.005) (z * 0.005) 3 * 0.15
      in case biome of
           OCEAN \<Rightarrow> - 2
         | PLAINS \<Rightarrow> (base * 0.5 + 0.5) * 40 + detail * 10 + 5
         | MOUNTAINS \<Rightarrow>
             (let ridge = ridgeNoise terrainNoise (x * 0.001) (z * 0.001) 5
              in (base * 0.5 + 0.5) * 120 + ridge * 200 + detail * 30 + 50)
         | ISLAND \<Rightarrow>
             (let inl = fbm islandNoise (x * 0.002) (z * 0.002) 3;
                  islandHeight = max 0 ((inl - 0.25) * 4)
              in islandHeight * 80 + detail * 15 + 3)
         | AIRPORT \<Rightarrow> 10)"

section \<open>Vectors and quaternions\<close>

text \<open>
  The program computes with \<^verbatim>\<open>THREE.Vector3\<close>, \<^verbatim>\<open>THREE.Quaternion\<close> and
  \<^verbatim>\<open>THREE.Euler\<close> of three.js r160, an external library. The operations used are
  written out here as the library defines them; a method that mutates its receiver
  returns the new value.
\<close>

datatype Vector3 = Vector3 (vx: real) (vy: real) (vz: real)

datatype Quaternion = Quaternion (qx: real) (qy: real) (qz: real) (qw: real)

definition v_length :: "Vector3 \<Rightarrow> real" where
  "v_length v = sqrt (vx v * vx v + vy v * vy v + vz v * vz v)"

definition multiplyScalar :: "Vector3 \<Rightarrow> real \<Rightarrow> Vector3" where
  "multiplyScalar v s = Vector3 (vx v * s) (vy v * s) (vz v * s)"

definition divideScalar :: "Vector3 \<Rightarrow> real \<Rightarrow> Vector3" where
  "divideScalar v s = multiplyScalar v (1 / s)"

text \<open>\<^verbatim>\<open>normalize() { return this.divideScalar(this.length() || 1); }\<close>\<close>

definition v_normalize :: "Vector3 \<Rightarrow> Vector3" where
  "v_normalize v = divideScalar v (if v_length v = 0 then 1 else v_length v)"

definition v_add :: "Vector3 \<Rightarrow> Vector3 \<Rightarrow> Vector3" where
  "v_add a b = Vector3 (vx a + vx b) (vy a + vy b) (vz a + vz b)"

definition addScaledVector :: "Vector3 \<Rightarrow> Vector3 \<Rightarrow> real \<Rightarrow> Vector3" where
  "addScaledVector v a s = Vector3 (vx v + vx a * s) (vy v + vy a * s) (vz v + vz a * s)"

definition v_negate :: "Vector3 \<Rightarrow> Vector3" where
  "v_negate v = Vector3 (- vx v) (- vy v) (- vz v)"

definition v_dot :: "Vector3 \<Rightarrow> Vector3 \<Rightarrow> real" where
  "v_dot a b = vx a * vx b + vy a * vy b + vz a * vz b"

definition v_cross :: "Vector3 \<Rightarrow> Vector3 \<Rightarrow> Vector3" where
  "v_cross a b =
     Vector3 (vy a * vz b - vz a * vy b) (vz a * vx b - vx a * vz b) (vx a * vy b - vy a * vx b)"

definition applyQuaternion :: "Vector3 \<Rightarrow> Quaternion \<Rightarrow> Vector3" where
  "applyQuaternion v q =
     (let tx = 2 * (qy q * vz v - qz q * vy v);
          ty = 2 * (qz q * vx v - qx q * vz v);
          tz = 2 * (qx q * vy v - qy q * vx v)
      in Vector3 (vx v + qw q * tx + qy q * tz - qz q * ty)
                 (vy v + qw q * ty + qz q * tx - qx q * tz)
                 (vz v + qw q * tz + qx q * ty - qy q * tx))"

text \<open>\<^verbatim>\<open>new THREE.Quaternion()\<close> is the identity rotation.\<close>

definition q_identity :: Quaternion where
  "q_identity = Quaternion 0 0 0 1"

text \<open>\<^verbatim>\<open>setFromEuler\<close> for the rotation orders the program uses.\<close>

datatype EulerOrder = XYZ | YXZ

definition setFromEuler :: "real \<Rightarrow> real \<Rightarrow> real \<Rightarrow> EulerOrder \<Rightarrow> Quaternion" where
  "setFromEuler x y z order =
     (let c1 = cos (x / 2); c2 = cos (y / 2); c3 = cos (z / 2);
          s1 = sin (x / 2); s2 = sin (y / 2); s3 = sin (z / 2)
      in case order of
           XYZ \<Rightarrow> Quaternion (s1 * c2 * c3 + c1 * s2 * s3) (c1 * s2 * c3 - s1 * c2 * s3)
                    (c1 * c2 * s3 + s1 * s2 * c3) (c1 * c2 * c3 - s1 * s2 * s3)
         | YXZ \<Rightarrow> Quaternion (s1 * c2 * c3 + c1 * s2 * s3) (c1 * s2 * c3 - s1 * c2 * s3)
                    (c1 * c2 * s3 - s1 * s2 * c3) (c1 * c2 * c3 + s1 * s2 * s3))"

text \<open>\<^verbatim>\<open>a.multiply(b)\<close> is the product \<open>a * b\<close>.\<close>

definition q_multiply :: "Quaternion \<Rightarrow> Quaternion \<Rightarrow> Quaternion" where
  "q_multiply a b =
     Quaternion (qx a * qw b + qw a * qx b + qy a * qz b - qz a * qy b)
                (qy a * qw b + qw a * qy b + qz a * qx b - qx a * qz b)
                (qz a * qw b + qw a * qz b + qx a * qy b - qy a * qx b)
                (qw a * qw b - qx a * qx b - qy a * qy b - qz a * qz b)"

definition q_length :: "Quaternion \<Rightarrow> real" where
  "q_length q = sqrt (qx q * qx q + qy q * qy q + qz q * qz q + qw q * qw q)"

definition q_normalize :: "Quaternion \<Rightarrow> Quaternion" where
  "q_normalize q =
     (let l = q_length q
      in if l = 0 then Quaternion 0 0 0 1
         else (let l = 1 / l in Quaternion (qx q * l) (qy q * l) (qz q * l) (qw q * l)))"

section \<open>World\<close>

text \<open>
  The scene is the list of objects added to it. The terrain chunks are created by
  \<^verbatim>\<open>World.update\<close>, not by the constructor; at construction the chunk map is empty.
\<close>

record Mesh =
  geo_width :: real
  geo_height :: real
  rotation_x :: real
  position_y :: real

type_synonym Scene = "Mesh list"

record Airport =
  ap_id :: nat
  ap_name :: string
  ap_x :: real
  ap_z :: real
  ap_elevation :: real
  ap_heading :: real
  ap_length :: real
  ap_width :: real
  ap_mesh :: "Mesh option"
  ap_biome :: BIOME

record Thermal =
  th_x :: real
  th_z :: real
  th_strength :: real
  th_radius :: real
  th_maxAlt :: real
  th_temperature :: real
  th_biome :: BIOME
  th_turbulence :: real
  th_active :: bool

record World =
  scene :: Scene
  world_seed :: int
  terrainNoise :: PerlinNoise
  biomeNoise :: PerlinNoise
  islandNoise :: PerlinNoise
  thermalNoise :: PerlinNoise
  chunks :: "(string \<times> Mesh) list"
  airports :: "Airport list"
  thermals :: "Thermal list"
  windDirection :: Vector3
  windSpeed :: real
  oceanMesh :: Mesh

definition SEA_LEVEL :: real where
  "SEA_LEVEL = 0"

definition createOcean :: Mesh where
  "createOcean =
     \<lparr>geo_width = 20000, geo_height = 20000, rotation_x = - pi / 2,
      position_y = SEA_LEVEL - 0.5\<rparr>"

definition airport_names :: "string list" where
  "airport_names =
     [''Skyport Alpha'', ''Eagle Field'', ''Thermal Valley'', ''Ridge Station'',
      ''Windward Strip'', ''Coastal Air'', ''Summit Base'', ''Plains Central'',
      ''Volcano Point'', ''Island Hop'', ''Canyon Port'', ''Highland Field'',
      ''Lakeview Strip'', ''Desert Oasis'', ''Forest Clearing'', ''Mesa Top'']"

text \<open>
  The methods of \<open>World\<close> that run inside the constructor read only the three noise
  fields of \<open>this\<close>; they take them as arguments.
\<close>

definition createAirportData ::
  "PerlinNoise \<Rightarrow> PerlinNoise \<Rightarrow> PerlinNoise \<Rightarrow> real \<Rightarrow> real \<Rightarrow> SeededRandom \<Rightarrow> nat
     \<Rightarrow> Airport \<times> SeededRandom"
where
  "createAirportData tn bn iln x z rng i =
     (let (u, rng') = rng_next rng;
          heading = u * pi;
          h = getTerrainHeight x z tn bn iln;
          elevation = max h 5
      in (\<lparr>ap_id = i, ap_name = airport_names ! (i mod length airport_names),
           ap_x = x, ap_z = z, ap_elevation = elevation, ap_heading = heading,
           ap_length = 200, ap_width = 30, ap_mesh = None,
           ap_biome = getBiome x z tn bn iln\<rparr>, rng'))"

text \<open>
  The inner loop \<^verbatim>\<open>for (const ap of this.airports)\<close> that sets \<^verbatim>\<open>tooClose\<close> and
  breaks at the first airport nearer than \<open>minDist\<close>.
\<close>

fun tooClose :: "real \<Rightarrow> real \<Rightarrow> real \<Rightarrow> Airport list \<Rightarrow> bool" where
  "tooClose ax az minDist [] = False"
| "tooClose ax az minDist (ap # aps) =
     (let d = sqrt ((ax - ap_x ap) ^ 2 + (az - ap_z ap) ^ 2)
      in if d < minDist then True else tooClose ax az minDist aps)"

text \<open>One pass through the body of the \<^verbatim>\<open>while\<close> loop of \<open>_generateAirports\<close>.\<close>

definition airport_attempt ::
  "PerlinNoise \<Rightarrow> PerlinNoise \<Rightarrow> PerlinNoise \<Rightarrow> Airport list \<times> SeededRandom
     \<Rightarrow> Airport list \<times> SeededRandom"
where
  "airport_attempt tn bn iln st =
     (let aps = fst st;
          minDist = 1500;
          (u1, rng1) = rng_next (snd st);
          angle = u1 * pi * 2;
          (u2, rng2) = rng_next rng1;
          dist = 1500 + u2 * 6000;
          ax = cos angle * dist;
          az = sin angle * dist;
          biome = getBiome ax az tn bn iln
      in if biome = OCEAN then (aps, rng2)
         else if tooClose ax az minDist aps then (aps, rng2)
         else (let (ap, rng3) = createAirportData tn bn iln ax az rng2 (length aps)
               in (aps @ [ap], rng3)))"

text \<open>
  \<^verbatim>\<open>while (this.airports.length < count && attempts < 500) { attempts++; ... }\<close>
  with \<open>count = 12\<close>.
\<close>

function airports_loop ::
  "PerlinNoise \<Rightarrow> PerlinNoise \<Rightarrow> PerlinNoise \<Rightarrow> Airport list \<times> SeededRandom \<Rightarrow> nat
     \<Rightarrow> Airport list \<times> SeededRandom"
where
  "airports_loop tn bn iln st attempts =
     (if length (fst st) < 12 \<and> attempts < 500
      then airports_loop tn bn iln (airport_attempt tn bn iln st) (Suc attempts)
      else st)"
  by pat_completeness auto
termination
  by (relation "measure (\<lambda>(tn, bn, iln, st, attempts). 500 - attempts)") auto

declare airports_loop.simps [simp del]

definition generateAirports ::
  "int \<Rightarrow> PerlinNoise \<Rightarrow> PerlinNoise \<Rightarrow> PerlinNoise \<Rightarrow> Airport list" where
  "generateAirports s tn bn iln =
     (let rng = SeededRandom_new (s + 500);
          (first, rng') = createAirportData tn bn iln 0 0 rng 0
      in fst (airports_loop tn bn iln ([first], rng') 0))"

text \<open>One pass through the body of the \<^verbatim>\<open>for\<close> loop of \<open>_generateThermals\<close>.\<close>

definition thermal_attempt ::
  "PerlinNoise \<Rightarrow> PerlinNoise \<Rightarrow> PerlinNoise \<Rightarrow> Thermal list \<times> SeededRandom
     \<Rightarrow> Thermal list \<times> SeededRandom"
where
  "thermal_attempt tn bn iln st =
     (let ths = fst st;
          (u1, rng1) = rng_next (snd st);
          angle = u1 * pi * 2;
          (u2, rng2) = rng_next rng1;
          dist = u2 * 8000;
          tx = cos angle * dist;
          tz = sin angle * dist;
          biome = getBiome tx tz tn bn iln
      in if biome = OCEAN then (ths, rng2)
         else
          (let (strength, radius, maxAlt, temperature, rng') =
                 (case biome of
                    PLAINS \<Rightarrow>
                      (let (u3, rng3) = rng_next rng2; (u4, rng4) = rng_next rng3;
                           (u5, rng5) = rng_next rng4; (u6, rng6) = rng_next rng5
                       in (2 + u3 * 3, 80 + u4 * 120, 1500 + u5 * 500, 25 + u6 * 10, rng6))
                  | MOUNTAINS \<Rightarrow>
                      (let (u3, rng3) = rng_next rng2; (u4, rng4) = rng_next rng3;
                           (u5, rng5) = rng_next rng4; (u6, rng6) = rng_next rng5
                       in (3 + u3 * 4, 60 + u4 * 100, 3000 + u5 * 1000, 20 + u6 * 8, rng6))
                  | ISLAND \<Rightarrow>
                      (let (u3, rng3) = rng_next rng2; (u4, rng4) = rng_next rng3;
                           (u5, rng5) = rng_next rng4; (u6, rng6) = rng_next rng5
                       in (6 + u3 * 6, 40 + u4 * 60, 4000 + u5 * 1000, 40 + u6 * 15, rng6))
                  | _ \<Rightarrow>
                      (let (u3, rng3) = rng_next rng2; (u4, rng4) = rng_next rng3
                       in (2 + u3 * 2, 80 + u4 * 80, 1200, 22, rng4)));
               (u7, rng7) = rng_next rng'
           in (ths @
                 [\<lparr>th_x = tx, th_z = tz, th_strength = strength, th_radius = radius,
                   th_maxAlt = maxAlt, th_temperature = temperature, th_biome = biome,
                   th_turbulence = (if biome = ISLAND then 0.5 + u7 * 0.5 else u7 * 0.3),
                   th_active = True\<rparr>], rng7)))"

text \<open>
  \<^verbatim>\<open>for (let i = 0; i < count; i++)\<close> with \<open>count = 80\<close>; the counter is the number of
  passes still to make.
\<close>

fun thermals_loop ::
  "PerlinNoise \<Rightarrow> PerlinNoise \<Rightarrow> PerlinNoise \<Rightarrow> nat \<Rightarrow> Thermal list \<times> SeededRandom
     \<Rightarrow> Thermal list \<times> SeededRandom"
where
  "thermals_loop tn bn iln 0 st = st"
| "thermals_loop tn bn iln (Suc n) st = thermals_loop tn bn iln n (thermal_attempt tn bn iln st)"

definition generateThermals ::
  "int \<Rightarrow> PerlinNoise \<Rightarrow> PerlinNoise \<Rightarrow> PerlinNoise \<Rightarrow> Thermal list" where
  "generateThermals s tn bn iln =
     fst (thermals_loop tn bn iln 80 ([], SeededRandom_new (s + 700)))"

text \<open>The constructor \<^verbatim>\<open>new World(scene, seed)\<close>.\<close>

definition World_new :: "Scene \<Rightarrow> int \<Rightarrow> World" where
  "World_new sc s =
     (let tn = PerlinNoise_new s;
          bn = PerlinNoise_new (s + 100);
          iln = PerlinNoise_new (s + 200);
          thn = PerlinNoise_new (s + 300);
          ocean = createOcean
      in \<lparr>scene = sc @ [ocean], world_seed = s, terrainNoise = tn, biomeNoise = bn,
          islandNoise = iln, thermalNoise = thn, chunks = [],
          airports = generateAirports s tn bn iln,
          thermals = generateThermals s tn bn iln,
          windDirection = v_normalize (Vector3 1 0 0.3), windSpeed = 5,
          oceanMesh = ocean\<rparr>)"

definition getHeightAt :: "World \<Rightarrow> real \<Rightarrow> real \<Rightarrow> real" where
  "getHeightAt w x z = getTerrainHeight x z (terrainNoise w) (biomeNoise w) (islandNoise w)"

definition getBiomeAt :: "World \<Rightarrow> real \<Rightarrow> real \<Rightarrow> BIOME" where
  "getBiomeAt w x z = getBiome x z (terrainNoise w) (biomeNoise w) (islandNoise w)"

text \<open>
  The value returned by \<open>getThermalLift\<close>.
\<close>

record ThermalLift =
  lift :: real
  temperature :: real
  turbulence :: real

text \<open>
  The planar distance of a point from a thermal's centre, the Gaussian factor, and what
  one thermal adds to \<^verbatim>\<open>totalLift\<close> in the loop of \<open>getThermalLift\<close>: the
  \<^verbatim>\<open>lift\<close> of the loop body when the guard holds, nothing otherwise.
\<close>

definition thermal_dist :: "real \<Rightarrow> real \<Rightarrow> Thermal \<Rightarrow> real" where
  "thermal_dist x z th =
     (let dx = x - th_x th; dz = z - th_z th in sqrt (dx * dx + dz * dz))"

definition thermal_factor :: "real \<Rightarrow> real \<Rightarrow> Thermal \<Rightarrow> real" where
  "thermal_factor x z th =
     (let dist = thermal_dist x z th
      in exp (- (dist * dist) / (2 * (th_radius th * 0.5) ^ 2)))"

definition thermal_contribution :: "real \<Rightarrow> real \<Rightarrow> real \<Rightarrow> Thermal \<Rightarrow> real" where
  "thermal_contribution x y z th =
     (let dist = thermal_dist x z th
      in if dist < th_radius th \<and> y < th_maxAlt th
         then (let factor = thermal_factor x z th;
                   altFactor = 1 - (y / th_maxAlt th)
               in th_strength th * factor * max 0 altFactor)
         else 0)"

text \<open>
  The loop \<^verbatim>\<open>for (const th of this.thermals)\<close>, on the accumulators \<^verbatim>\<open>totalLift\<close>,
  \<^verbatim>\<open>maxTemp\<close> and \<^verbatim>\<open>turbulence\<close>.
\<close>

fun lift_loop :: "real \<Rightarrow> real \<Rightarrow> real \<Rightarrow> Thermal list \<Rightarrow> ThermalLift \<Rightarrow> ThermalLift" where
  "lift_loop x y z [] acc = acc"
| "lift_loop x y z (th # ths) acc =
     (let dx = x - th_x th;
          dz = z - th_z th;
          dist = sqrt (dx * dx + dz * dz)
      in if dist < th_radius th \<and> y < th_maxAlt th
         then (let factor = exp (- (dist * dist) / (2 * (th_radius th * 0.5) ^ 2));
                   altFactor = 1 - (y / th_maxAlt th);
                   l = th_strength th * factor * max 0 altFactor
               in lift_loop x y z ths
                    \<lparr>lift = lift acc + l,
                     temperature = max (temperature acc) (th_temperature th * factor),
                     turbulence = max (turbulence acc) (th_turbulence th * factor)\<rparr>)
         else lift_loop x y z ths acc)"

definition getRidgeLift :: "World \<Rightarrow> real \<Rightarrow> real \<Rightarrow> real \<Rightarrow> real" where
  "getRidgeLift w x y z =
     (let s = 20;
          h0 = getTerrainHeight x z (terrainNoise w) (biomeNoise w) (islandNoise w);
          hx = getTerrainHeight (x + s) z (terrainNoise w) (biomeNoise w) (islandNoise w);
          hz = getTerrainHeight x (z + s) (terrainNoise w) (biomeNoise w) (islandNoise w);
          slopeX = (hx - h0) / s;
          slopeZ = (hz - h0) / s;
          normal = v_normalize (Vector3 (- slopeX) 1 (- slopeZ));
          heightAboveTerrain = y - h0
      in if heightAboveTerrain < 0 \<or> heightAboveTerrain > 300 then 0
         else (let windComponent = v_dot (windDirection w) (Vector3 (vx normal) 0 (vz normal))
               in if windComponent \<le> 0 then 0
                  else (let proximity = 1 - heightAboveTerrain / 300
                        in windComponent * windSpeed w * 0.4 * proximity)))"

definition getThermalLift :: "World \<Rightarrow> real \<Rightarrow> real \<Rightarrow> real \<Rightarrow> ThermalLift" where
  "getThermalLift w x y z =
     (let biome = getBiome x z (terrainNoise w) (biomeNoise w) (islandNoise w)
      in if biome = OCEAN then \<lparr>lift = - 1.5, temperature = 12, turbulence = 0.1\<rparr>
         else (let acc = lift_loop x y z (thermals w) \<lparr>lift = 0, temperature = 15, turbulence = 0\<rparr>
               in if biome = MOUNTAINS then acc\<lparr>lift := lift acc + getRidgeLift w x y z\<rparr>
                  else acc))"

text \<open>\<open>getAirportAt\<close> returns the first airport whose runway rectangle holds the point.\<close>

fun airportAt :: "Airport list \<Rightarrow> real \<Rightarrow> real \<Rightarrow> real \<Rightarrow> Airport option" where
  "airportAt [] x y z = None"
| "airportAt (ap # aps) x y z =
     (let dx = x - ap_x ap;
          dz = z - ap_z ap;
          c = cos (- ap_heading ap);
          s = sin (- ap_heading ap);
          lx = dx * c - dz * s;
          lz = dx * s + dz * c;
          halfLen = ap_length ap / 2;
          halfWid = ap_width ap / 2
      in if \<bar>lx\<bar> < halfLen \<and> \<bar>lz\<bar> < halfWid \<and> \<bar>y - ap_elevation ap\<bar> < 10 then Some ap
         else airportAt aps x y z)"

definition getAirportAt :: "World \<Rightarrow> real \<Rightarrow> real \<Rightarrow> real \<Rightarrow> Airport option" where
  "getAirportAt w x y z = airportAt (airports w) x y z"

section \<open>physics.js\<close>

definition RHO :: real where
  "RHO = 1.225"

definition G :: real where
  "G = 9.81"

definition getCL :: "real \<Rightarrow> real" where
  "getCL aoa =
     (let deg = aoa * (180 / pi)
      in if deg < - 10 then - 0.4
         else if deg > 18 then 0.8 - (deg - 18) * 0.1
         else min 1.6 (max (- 0.5) (0.1 + deg * 0.1)))"

definition getCD :: "real \<Rightarrow> real \<Rightarrow> real \<Rightarrow> real \<Rightarrow> real" where
  "getCD cl aspect_ratio cd_0 e = (let cdi = (cl * cl) / (pi * aspect_ratio * e) in cd_0 + cdi)"

text \<open>The plane configuration; \<open>oswald_e\<close> is the field \<^verbatim>\<open>e\<close>.\<close>

record Config =
  mass :: real
  cargoMass :: real
  wingArea :: real
  aspectRatio :: real
  cd0 :: real
  oswald_e :: real
  rollRate :: real
  pitchRate :: real
  yawRate :: real
  maxSpeed :: real
  stallSpeed :: real
  brakeCD :: real

definition defaultConfig :: Config where
  "defaultConfig =
     \<lparr>mass = 300, cargoMass = 0, wingArea = 15, aspectRatio = 18, cd0 = 0.015,
      oswald_e = 0.85, rollRate = 1.2, pitchRate = 0.8, yawRate = 0.3,
      maxSpeed = 250 / 3.6, stallSpeed = 60 / 3.6, brakeCD = 0.05\<rparr>"

record FlightPhysics =
  position :: Vector3
  velocity :: Vector3
  orientation :: Quaternion
  angularVelocity :: Vector3
  pitchInput :: real
  rollInput :: real
  yawInput :: real
  brakeInput :: real
  config :: Config
  isLaunching :: bool
  launchThrust :: real
  launchTimer :: real
  stalling :: bool
  crashed :: bool
  landed :: bool
  thermalHeatTime :: real
  currentTemp :: real
  cargoSpoiled :: bool
  turbulenceOffset :: Vector3

definition FlightPhysics_new :: FlightPhysics where
  "FlightPhysics_new =
     \<lparr>position = Vector3 0 300 0, velocity = Vector3 0 0 (- 20), orientation = q_identity,
      angularVelocity = Vector3 0 0 0, pitchInput = 0, rollInput = 0, yawInput = 0,
      brakeInput = 0, config = defaultConfig, isLaunching = False, launchThrust = 0,
      launchTimer = 0, stalling = False, crashed = False, landed = True,
      thermalHeatTime = 0, currentTemp = 15, cargoSpoiled = False,
      turbulenceOffset = Vector3 0 0 0\<rparr>"

definition totalMass :: "FlightPhysics \<Rightarrow> real" where
  "totalMass fp = mass (config fp) + cargoMass (config fp)"

definition speed :: "FlightPhysics \<Rightarrow> real" where
  "speed fp = v_length (velocity fp)"

definition speedKmh :: "FlightPhysics \<Rightarrow> real" where
  "speedKmh fp = speed fp * 3.6"

definition verticalSpeed :: "FlightPhysics \<Rightarrow> real" where
  "verticalSpeed fp = vy (velocity fp)"

definition altitude :: "FlightPhysics \<Rightarrow> real" where
  "altitude fp = vy (position fp)"

definition forward :: "FlightPhysics \<Rightarrow> Vector3" where
  "forward fp = v_normalize (applyQuaternion (Vector3 0 0 (- 1)) (orientation fp))"

definition up :: "FlightPhysics \<Rightarrow> Vector3" where
  "up fp = v_normalize (applyQuaternion (Vector3 0 1 0) (orientation fp))"

definition right :: "FlightPhysics \<Rightarrow> Vector3" where
  "right fp = v_normalize (applyQuaternion (Vector3 1 0 0) (orientation fp))"

definition getAngleOfAttack :: "FlightPhysics \<Rightarrow> real" where
  "getAngleOfAttack fp =
     (if speed fp < 0.1 then 0
      else (let velDir = v_normalize (velocity fp);
                fwd = forward fp;
                d = v_dot velDir fwd;
                crs = v_cross velDir fwd;
                sign = (if v_dot crs (right fp) > 0 then 1 else - 1)
            in sign * arccos (min 1 (max (- 1) d))))"

text \<open>
  The argument of \<open>launch\<close> is any JavaScript value; \<^verbatim>\<open>type === 'cable'\<close> holds for the
  string \<^verbatim>\<open>'cable'\<close> only.
\<close>

datatype JSValue = JSUndefined | JSNull | JSBoolean bool | JSNumber real | JSString string

definition launch :: "JSValue \<Rightarrow> FlightPhysics \<Rightarrow> FlightPhysics" where
  "launch type fp =
     (let fp = fp\<lparr>landed := False, crashed := False, isLaunching := True,
                   cargoSpoiled := False, thermalHeatTime := 0\<rparr>
      in if type = JSString ''cable''
         then fp\<lparr>launchThrust := totalMass fp * G * 1.5, launchTimer := 4,
                 velocity := multiplyScalar (forward fp) 15\<rparr>
         else fp\<lparr>launchThrust := totalMass fp * G * 1.2, launchTimer := 15,
                 velocity := multiplyScalar (forward fp) 25\<rparr>)"

definition resetAt :: "Airport \<Rightarrow> FlightPhysics \<Rightarrow> FlightPhysics" where
  "resetAt airport fp =
     fp\<lparr>position := Vector3 (ap_x airport) (ap_elevation airport + 2) (ap_z airport),
        velocity := Vector3 0 0 0,
        orientation := setFromEuler 0 (ap_heading airport) 0 XYZ,
        angularVelocity := Vector3 0 0 0,
        landed := True, crashed := False, isLaunching := False, stalling := False,
        thermalHeatTime := 0, cargoSpoiled := False, currentTemp := 15,
        turbulenceOffset := Vector3 0 0 0\<rparr>"

text \<open>
  \<open>update(dt, world)\<close> is written in the source as one method; here each block of it
  (marked in the source by its comment) is one function, and \<open>update\<close> runs them in the
  source's order. The constants \<^verbatim>\<open>mass\<close> and \<^verbatim>\<open>v\<close> are read once on entry and passed
  on, \<^verbatim>\<open>forces\<close> is threaded through. \<^verbatim>\<open>performance.now()\<close> is the argument \<open>now\<close>;
  \<open>world\<close> is \<open>None\<close> for a falsy argument.
\<close>

text \<open>Block "Orientation update from controls".\<close>

definition update_orientation :: "real \<Rightarrow> FlightPhysics \<Rightarrow> FlightPhysics" where
  "update_orientation dt fp =
     (let cfg = config fp;
          rollTorque = rollInput fp * rollRate cfg;
          pitchTorque = pitchInput fp * pitchRate cfg;
          yawTorque = yawInput fp * yawRate cfg;
          fp = fp\<lparr>angularVelocity := Vector3 pitchTorque yawTorque (- rollTorque)\<rparr>;
          av = multiplyScalar (angularVelocity fp) dt;
          dq = setFromEuler (vx av) (vy av) (vz av) YXZ
      in fp\<lparr>orientation := q_normalize (q_multiply (orientation fp) dq)\<rparr>)"

text \<open>Block "Aerodynamic forces": gravity, lift and drag.\<close>

definition aero_forces :: "FlightPhysics \<Rightarrow> real \<Rightarrow> real \<Rightarrow> real \<Rightarrow> Vector3" where
  "aero_forces fp m v aoa =
     (let cfg = config fp;
          q = 0.5 * RHO * v * v;
          forces = Vector3 0 0 0;
          forces = Vector3 (vx forces) (vy forces - m * G) (vz forces);
          cl = getCL aoa;
          cd = getCD cl (aspectRatio cfg) (cd0 cfg) (oswald_e cfg) + (brakeInput fp * brakeCD cfg);
          liftMag = cl * q * wingArea cfg;
          velDir = (if v > 0.5 then v_normalize (velocity fp) else v_negate (forward fp));
          liftDir = up fp;
          liftDir = addScaledVector liftDir velDir (- v_dot liftDir velDir);
          liftDir = v_normalize liftDir;
          forces = addScaledVector forces liftDir liftMag;
          dragMag = cd * q * wingArea cfg
      in if v > 0.5 then addScaledVector forces velDir (- dragMag) else forces)"

text \<open>Block "Launch thrust".\<close>

definition launch_thrust :: "real \<Rightarrow> FlightPhysics \<times> Vector3 \<Rightarrow> FlightPhysics \<times> Vector3" where
  "launch_thrust dt st =
     (let fp = fst st; forces = snd st
      in if isLaunching fp \<and> launchTimer fp > 0
         then (let thrustDir = forward fp;
                   thrustDir = Vector3 (vx thrustDir) (max (vy thrustDir) 0.3) (vz thrustDir);
                   thrustDir = v_normalize thrustDir;
                   forces = addScaledVector forces thrustDir (launchThrust fp);
                   fp = fp\<lparr>launchTimer := launchTimer fp - dt\<rparr>
               in if launchTimer fp \<le> 0
                  then (fp\<lparr>isLaunching := False, launchThrust := 0\<rparr>, forces)
                  else (fp, forces))
         else (fp, forces))"

text \<open>Block "Environmental forces": thermal lift, temperature, turbulence, wind.\<close>

definition environment ::
  "real \<Rightarrow> real \<Rightarrow> World option \<Rightarrow> real \<Rightarrow> FlightPhysics \<times> Vector3 \<Rightarrow> FlightPhysics \<times> Vector3"
where
  "environment dt now world m st =
     (case world of
        None \<Rightarrow> st
      | Some w \<Rightarrow>
         (let fp = fst st; forces = snd st;
              thermal = getThermalLift w (vx (position fp)) (vy (position fp)) (vz (position fp));
              forces = (if lift thermal \<noteq> 0
                        then Vector3 (vx forces) (vy forces + lift thermal * m * 0.5) (vz forces)
                        else forces);
              fp = fp\<lparr>currentTemp := temperature thermal\<rparr>;
              fp = (if temperature thermal > 30
                    then (let fp = fp\<lparr>thermalHeatTime := thermalHeatTime fp + dt\<rparr>
                          in if thermalHeatTime fp > 10 then fp\<lparr>cargoSpoiled := True\<rparr> else fp)
                    else fp);
              st = (if turbulence thermal > 0
                    then (let t = now * 0.003;
                              fp = fp\<lparr>turbulenceOffset :=
                                      Vector3 (sin (t * 3.7) * turbulence thermal * 2)
                                              (sin (t * 2.3) * turbulence thermal * 1.5)
                                              (sin (t * 4.1) * turbulence thermal * 2)\<rparr>
                          in (fp, v_add forces (multiplyScalar (turbulenceOffset fp) (m * 0.5))))
                    else (fp, forces))
          in (fst st, addScaledVector (snd st) (windDirection w) (windSpeed w * m * 0.02))))"

text \<open>Block "Stall detection", with the nose drop.\<close>

definition stall_detection :: "real \<Rightarrow> real \<Rightarrow> real \<Rightarrow> FlightPhysics \<Rightarrow> FlightPhysics" where
  "stall_detection dt aoa v fp =
     (let cfg = config fp;
          aoaDeg = \<bar>aoa * 180 / pi\<bar>;
          fp = fp\<lparr>stalling := (aoaDeg > 16 \<or> v < stallSpeed cfg * 0.9)\<rparr>
      in if stalling fp \<and> v < stallSpeed cfg
         then (let stallPitch = setFromEuler (dt * 0.5) 0 0 XYZ
               in fp\<lparr>orientation := q_multiply (orientation fp) stallPitch\<rparr>)
         else fp)"

text \<open>Block "Integrate", with the speed clamp.\<close>

definition integrate :: "real \<Rightarrow> real \<Rightarrow> Vector3 \<Rightarrow> FlightPhysics \<Rightarrow> FlightPhysics" where
  "integrate dt m forces fp =
     (let cfg = config fp;
          accel = divideScalar forces m;
          fp = fp\<lparr>velocity := addScaledVector (velocity fp) accel dt\<rparr>;
          fp = (if speed fp > maxSpeed cfg
                then fp\<lparr>velocity := multiplyScalar (v_normalize (velocity fp)) (maxSpeed cfg)\<rparr>
                else fp)
      in fp\<lparr>position := addScaledVector (position fp) (velocity fp) dt\<rparr>)"

text \<open>
  Block "Ground collision" and the final \<^verbatim>\<open>return 'flying'\<close>. The result is the value
  \<open>update\<close> returns.
\<close>

definition ground_collision :: "World option \<Rightarrow> FlightPhysics \<Rightarrow> FlightPhysics \<times> string option" where
  "ground_collision world fp =
     (case world of
        None \<Rightarrow> (fp, Some ''flying'')
      | Some w \<Rightarrow>
         (let groundH = getHeightAt w (vx (position fp)) (vz (position fp));
              airport = getAirportAt w (vx (position fp)) (vy (position fp)) (vz (position fp))
          in if vy (position fp) \<le> groundH + 1
             then (let vSpeed = \<bar>verticalSpeed fp\<bar>;
                       hSpeed = speedKmh fp
                   in if airport \<noteq> None \<and> vSpeed < 2.0 \<and> hSpeed < 40
                      then (let fp = fp\<lparr>position :=
                                        Vector3 (vx (position fp)) (ap_elevation (the airport) + 1)
                                          (vz (position fp))\<rparr>;
                                fp = fp\<lparr>velocity := multiplyScalar (velocity fp) 0.95\<rparr>
                            in if speedKmh fp < 2
                               then (fp\<lparr>velocity := Vector3 0 0 0, landed := True\<rparr>, Some ''landed'')
                               else (fp, Some ''landing''))
                      else (fp\<lparr>crashed := True, velocity := Vector3 0 0 0,
                               position := Vector3 (vx (position fp)) (groundH + 2) (vz (position fp))\<rparr>,
                            Some ''crashed''))
             else (fp, Some ''flying'')))"

text \<open>The state after the block "Integrate", before the ground is looked at.\<close>

definition update_flight :: "real \<Rightarrow> real \<Rightarrow> World option \<Rightarrow> FlightPhysics \<Rightarrow> FlightPhysics" where
  "update_flight dt now world fp =
     (let m = totalMass fp;
          v = speed fp;
          fp = update_orientation dt fp;
          aoa = getAngleOfAttack fp;
          forces = aero_forces fp m v aoa;
          st = launch_thrust dt (fp, forces);
          st = environment dt now world m st;
          fp = stall_detection dt aoa v (fst st)
      in integrate dt m (snd st) fp)"

text \<open>
  \<open>update\<close>: the bare \<^verbatim>\<open>return\<close> of a landed or crashed aircraft yields
  \<^verbatim>\<open>undefined\<close>, here \<open>None\<close>.
\<close>

definition update :: "real \<Rightarrow> real \<Rightarrow> World option \<Rightarrow> FlightPhysics \<Rightarrow> FlightPhysics \<times> string option" where
  "update dt now world fp =
     (if landed fp \<or> crashed fp then (fp, None)
      else ground_collision world (update_flight dt now world fp))"

text \<open>A run of \<open>update\<close> calls, each with its own step, clock reading and world.\<close>

fun updates :: "(real \<times> real \<times> World option) list \<Rightarrow> FlightPhysics \<Rightarrow> FlightPhysics" where
  "updates [] fp = fp"
| "updates ((dt, now, world) # calls) fp = updates calls (fst (update dt now world fp))"

section \<open>Well-formed generators and thermals\<close>

text \<open>
  A generator state inside the range \<open>1 .. 2147483646\<close> of the minimal-standard
  generator, and a thermal whose strength, radius and maximum altitude are at least the
  smallest values \<open>_generateThermals\<close> aims at.
\<close>

definition valid_rng :: "SeededRandom \<Rightarrow> bool" where
  "valid_rng r \<longleftrightarrow> 0 < seed r \<and> seed r < 2147483647"

definition sound_thermal :: "Thermal \<Rightarrow> bool" where
  "sound_thermal th \<longleftrightarrow> 2 \<le> th_strength th \<and> 40 \<le> th_radius th \<and> 1200 \<le> th_maxAlt th"

section \<open>Separation of airports\<close>

text \<open>
  The planar distance of two airports, and the statement that every two airports at
  different places of a list are at least \<open>d\<close> apart: each airport is compared with all
  later ones.
\<close>

definition planar_dist :: "Airport \<Rightarrow> Airport \<Rightarrow> real" where
  "planar_dist a b = sqrt ((ap_x a - ap_x b) ^ 2 + (ap_z a - ap_z b) ^ 2)"

fun far_from_all :: "real \<Rightarrow> Airport \<Rightarrow> Airport list \<Rightarrow> bool" where
  "far_from_all d a [] = True"
| "far_from_all d a (b # bs) = (d \<le> planar_dist a b \<and> far_from_all d a bs)"

fun separated :: "real \<Rightarrow> Airport list \<Rightarrow> bool" where
  "separated d [] = True"
| "separated d (a # as) = (far_from_all d a as \<and> separated d as)"

text \<open>What the loop of \<open>_generateAirports\<close> maintains.\<close>

definition airports_inv :: "Airport list \<Rightarrow> bool" where
  "airports_inv aps \<longleftrightarrow> aps \<noteq> [] \<and> length aps \<le> 12 \<and> ap_x (hd aps) = 0 \<and> ap_z (hd aps) = 0
     \<and> separated 1500 aps"

section \<open>Sample values\<close>

text \<open>
  Concrete values on which the theorems below are exercised. \<open>checker_noise\<close> is a
  well-formed noise field (the identity table doubled, 256 unit gradients alternating
  between \<open>(1, 0)\<close> and \<open>(-1, 0)\<close>); with it as biome and island field the point
  \<open>(5000, 0)\<close> is Ocean. The origin is Plains with height 25 under any three fields.
\<close>

definition checker_noise :: PerlinNoise where
  "checker_noise =
     \<lparr>pn_seed = 0, perm = [0..<256] @ [0..<256],
      grad = map (\<lambda>i. if even i then (1, 0) else (- 1, 0)) [0..<256]\<rparr>"

definition sample_airport :: Airport where
  "sample_airport =
     \<lparr>ap_id = 0, ap_name = ''Skyport Alpha'', ap_x = 0, ap_z = 0, ap_elevation = 25,
      ap_heading = 0, ap_length = 200, ap_width = 30, ap_mesh = None, ap_biome = PLAINS\<rparr>"

definition sample_thermal :: "real \<Rightarrow> real \<Rightarrow> real \<Rightarrow> Thermal" where
  "sample_thermal x z r =
     \<lparr>th_x = x, th_z = z, th_strength = 3, th_radius = r, th_maxAlt = 1500,
      th_temperature = 28, th_biome = PLAINS, th_turbulence = 0.1, th_active = True\<rparr>"

definition sample_world :: World where
  "sample_world =
     \<lparr>scene = [createOcean], world_seed = 0, terrainNoise = checker_noise,
      biomeNoise = checker_noise, islandNoise = checker_noise, thermalNoise = checker_noise,
      chunks = [], airports = [sample_airport],
      thermals = [sample_thermal 0 0 100, sample_thermal 5000 0 100],
      windDirection = Vector3 1 0 0, windSpeed = 5, oceanMesh = createOcean\<rparr>"

text \<open>An aircraft in flight with the given position and velocity, default otherwise.\<close>

definition sample_flight :: "Vector3 \<Rightarrow> Vector3 \<Rightarrow> FlightPhysics" where
  "sample_flight p v = FlightPhysics_new\<lparr>position := p, velocity := v, landed := False\<rparr>"

text \<open>
  A sample aircraft half a unit above the sample airport, sinking at 1 m/s with
  horizontal speed \<open>h\<close>.
\<close>

definition landing_sample :: "real \<Rightarrow> FlightPhysics" where
  "landing_sample h = sample_flight (Vector3 0 25.5 0) (Vector3 h (- 1) 0)"

section \<open>Properties of SeededRandom\<close>

lemma rng_next_seed:
  "seed (snd (rng_next r)) = js_rem (seed r * 16807) 2147483647"
  by (simp add: rng_next_def Let_def)

lemma rng_next_value:
  "fst (rng_next r) = real_of_int (seed (snd (rng_next r)) - 1) / 2147483646"
  by (simp add: rng_next_def Let_def)

text \<open>
  \<open>16807\<close> is invertible modulo \<open>2 ^ 31 - 1\<close> (its inverse is \<open>1407677000\<close>), so a state
  that is not a multiple of the modulus never becomes one.
\<close>

lemma lcg_step_nonzero:
  fixes s :: int
  assumes "s mod 2147483647 \<noteq> 0"
  shows "(s * 16807) mod 2147483647 \<noteq> 0"
proof
  assume z: "(s * 16807) mod 2147483647 = 0"
  then have "(2147483647::int) dvd s * 16807" by (simp add: dvd_eq_mod_eq_0)
  then obtain k where k: "s * 16807 = 2147483647 * k" by (auto simp: dvd_def)
  have "s = (s * 16807) * 1407677000 - 2147483647 * (s * 11017)" by simp
  also have "\<dots> = 2147483647 * (k * 1407677000 - s * 11017)" by (simp only: k) algebra
  finally have "(2147483647::int) dvd s" by (metis dvd_triv_left)
  with assms show False by (simp add: dvd_eq_mod_eq_0)
qed

lemma rng_next_state_range:
  assumes "0 < seed r" "seed r mod 2147483647 \<noteq> 0"
  shows "0 < seed (snd (rng_next r)) \<and> seed (snd (rng_next r)) < 2147483647"
proof -
  have pos: "0 < seed r * 16807" using assms(1) by simp
  have nz: "(seed r * 16807) mod 2147483647 \<noteq> 0" using assms(2) by (rule lcg_step_nonzero)
  have "js_rem (seed r * 16807) 2147483647 = (seed r * 16807) mod 2147483647"
    using pos by (simp add: js_rem_def)
  moreover have "0 \<le> (seed r * 16807) mod 2147483647" by simp
  moreover have "(seed r * 16807) mod 2147483647 < 2147483647" by simp
  ultimately show ?thesis using nz by (simp add: rng_next_seed)
qed

lemma rng_next_unit_interval:
  assumes "0 < seed r" "seed r mod 2147483647 \<noteq> 0"
  shows "0 \<le> fst (rng_next r) \<and> fst (rng_next r) < 1"
proof -
  from rng_next_state_range [OF assms]
  have "0 < seed (snd (rng_next r))" "seed (snd (rng_next r)) < 2147483647" by simp_all
  then show ?thesis by (simp add: rng_next_value)
qed

lemma nth_next_unit_interval:
  "0 < seed r \<Longrightarrow> seed r mod 2147483647 \<noteq> 0 \<Longrightarrow> 0 \<le> nth_next n r \<and> nth_next n r < 1"
proof (induction n arbitrary: r)
  case 0
  then show ?case using rng_next_unit_interval by simp
next
  case (Suc n)
  from rng_next_state_range [OF Suc.prems]
  have "0 < seed (snd (rng_next r))" "seed (snd (rng_next r)) mod 2147483647 \<noteq> 0" by simp_all
  then show ?case using Suc.IH by simp
qed

text \<open>
  From a seed in the range \<open>1 .. 2147483646\<close> of the minimal-standard generator every
  value of \<open>next()\<close> lies in the half-open interval from 0 to 1.
\<close>

lemma nth_value_unit_interval:
  assumes "0 < s" and "s < 2147483647" and "1 \<le> n"
  shows "0 \<le> nth_value s n \<and> nth_value s n < 1"
proof -
  have "0 < seed (SeededRandom_new s)" "seed (SeededRandom_new s) mod 2147483647 \<noteq> 0"
    using assms(1,2) by (simp_all add: SeededRandom_new_def)
  then show ?thesis unfolding nth_value_def by (rule nth_next_unit_interval)
qed

text \<open>The generator seeded with 0: the state stays 0.\<close>

lemma rng_next_zero: "rng_next \<lparr>seed = 0\<rparr> = (- 1 / 2147483646, \<lparr>seed = 0\<rparr>)"
  by (simp add: rng_next_def js_rem_def)

lemma nth_next_zero: "nth_next n \<lparr>seed = 0\<rparr> = - 1 / 2147483646"
  by (induction n) (simp_all add: rng_next_zero)

lemma nextInt_zero:
  assumes "0 < m" and "m \<le> 2147483646"
  shows "nextInt \<lparr>seed = 0\<rparr> 0 m = (- 1, \<lparr>seed = 0\<rparr>)"
proof -
  have "\<lfloor>- (m / 2147483646)\<rfloor> = (- 1 :: int)"
    using assms by (intro floor_unique) simp_all
  then show ?thesis
    by (simp add: nextInt_def nextRange_def rng_next_zero)
qed

section \<open>Properties of the noise fields\<close>

text \<open>At a lattice point every corner offset that counts is zero, so the noise is zero.\<close>

lemma noise2D_lattice: "x \<in> \<int> \<Longrightarrow> y \<in> \<int> \<Longrightarrow> noise2D pn x y = 0"
  by (auto simp: noise2D_def Let_def pn_fade_def pn_lerp_def pn_dot_def elim!: Ints_cases)

lemma fbm_loop_origin: "fst (fbm_loop pn 0 0 l g n sm amp f ma) = sm"
  by (induction n arbitrary: sm amp f ma) (simp_all add: noise2D_lattice)

lemma fbm_origin: "fbm pn 0 0 n = 0"
  using fbm_loop_origin [of pn 2 "1/2" n 0 1 1 0]
  by (cases "fbm_loop pn 0 0 2 (1/2) n 0 1 1 0") (simp add: fbm_def fbm_full_def)

lemma getBiome_origin: "getBiome 0 0 tn bn iln = PLAINS"
  by (simp add: getBiome_def fbm_origin)

lemma getTerrainHeight_origin: "getTerrainHeight 0 0 tn bn iln = 25"
  by (simp add: getTerrainHeight_def getBiome_origin fbm_origin)

lemma checker_noise_half: "noise2D checker_noise (3/2) 0 = - 1/2"
  by (simp add: noise2D_def Let_def pn_fade_def pn_lerp_def pn_dot_def checker_noise_def
      nth_append)

lemma checker_fbm_biome: "fbm checker_noise (3/2) 0 4 = - 4 / 15"
  by (simp add: fbm_def fbm_full_def numeral_eq_Suc checker_noise_half noise2D_lattice)

lemma checker_fbm_island: "fbm checker_noise 10 0 3 = 0"
  by (simp add: fbm_def fbm_full_def numeral_eq_Suc noise2D_lattice)

lemma checker_ocean: "getBiome 5000 0 tn checker_noise checker_noise = OCEAN"
  by (simp add: getBiome_def Let_def checker_fbm_biome checker_fbm_island)

text \<open>
  The constructor builds a table of 512 entries below 256 and 256 gradients, so every
  table read of \<open>noise2D\<close> is inside its array; the sample field has the same shape.
\<close>

lemma swap_u8_length: "length (swap_u8 p i j) = length p"
  by (simp add: swap_u8_def)

lemma swap_u8_bound:
  assumes "\<forall>x\<in>set p. x < 256" and "i < length p"
  shows "\<forall>x\<in>set (swap_u8 p i j). x < 256"
proof (cases "0 \<le> j \<and> j < int (length p)")
  case True
  then have "nat j < length p" by linarith
  then have a: "p ! nat j \<in> set p" and b: "p ! i \<in> set p" using assms(2) by simp_all
  have "set ((p[i := p ! nat j])[nat j := p ! i]) \<subseteq> insert (p ! i) (insert (p ! nat j) (set p))"
    using set_update_subset_insert [of "p[i := p ! nat j]" "nat j" "p ! i"]
      set_update_subset_insert [of p i "p ! nat j"] by blast
  then have "set (swap_u8 p i j) \<subseteq> set p" using True a b by (auto simp: swap_u8_def)
  then show ?thesis using assms(1) by blast
next
  case False
  from False have "swap_u8 p i j = p[i := 0]" by (auto simp: swap_u8_def)
  moreover have "set (p[i := 0]) \<subseteq> insert 0 (set p)" by (rule set_update_subset_insert)
  ultimately have "set (swap_u8 p i j) \<subseteq> insert 0 (set p)" by simp
  then show ?thesis using assms(1) by auto
qed

lemma shuffle_table:
  assumes "length p = 256" and "k < 256" and "\<forall>x\<in>set p. x < 256"
  shows "length (fst (shuffle k p rng)) = 256 \<and> (\<forall>x\<in>set (fst (shuffle k p rng)). x < 256)"
  using assms
proof (induction k arbitrary: p rng)
  case 0
  then show ?case by simp
next
  case (Suc k)
  obtain j rng' where n: "nextInt rng 0 (real (Suc k) + 1) = (j, rng')"
    by (cases "nextInt rng 0 (real (Suc k) + 1)")
  have step: "shuffle (Suc k) p rng = shuffle k (swap_u8 p (Suc k) j) rng'"
    by (simp only: shuffle.simps n case_prod_conv)
  have l: "length (swap_u8 p (Suc k) j) = 256" using Suc.prems(1) by (simp add: swap_u8_length)
  have b: "\<forall>x\<in>set (swap_u8 p (Suc k) j). x < 256"
    using Suc.prems by (intro swap_u8_bound) simp_all
  have k: "k < 256" using Suc.prems(2) by simp
  show ?case unfolding step by (rule Suc.IH [OF l k b])
qed

lemma gradients_length: "length (fst (gradients n rng)) = n"
proof (induction n arbitrary: rng)
  case 0
  then show ?case by simp
next
  case (Suc n)
  obtain u rng' where r: "rng_next rng = (u, rng')" by (cases "rng_next rng")
  obtain rest rng'' where g: "gradients n rng' = (rest, rng'')" by (cases "gradients n rng'")
  have "length rest = n" using Suc.IH [of rng'] by (simp add: g)
  then show ?case by (simp add: r g Let_def)
qed

lemma PerlinNoise_init_shape:
  assumes "shuffle 255 [0..<256] (SeededRandom_new s) = (p', rng')"
    and "gradients 256 rng' = (angles, rng'')"
  shows "PerlinNoise_init s = (map (\<lambda>i. p' ! (i mod 256)) [0..<512], angles)"
  unfolding PerlinNoise_init_def Let_def by (simp only: assms case_prod_conv)


lemma PerlinNoise_new_wellformed:
  "length (perm (PerlinNoise_new s)) = 512
   \<and> (\<forall>x\<in>set (perm (PerlinNoise_new s)). x < 256)
   \<and> length (grad (PerlinNoise_new s)) = 256"
proof -
  obtain p' rng' where sh: "shuffle 255 [0..<256] (SeededRandom_new s) = (p', rng')"
    by (cases "shuffle 255 [0..<256] (SeededRandom_new s)")
  obtain angles rng'' where g: "gradients 256 rng' = (angles, rng'')"
    by (cases "gradients 256 rng'")
  have "length (fst (shuffle 255 [0..<256] (SeededRandom_new s))) = 256
     \<and> (\<forall>x\<in>set (fst (shuffle 255 [0..<256] (SeededRandom_new s))). x < 256)"
    by (rule shuffle_table) (simp_all del: upt_rec_numeral)
  then have p: "length p' = 256" "\<forall>x\<in>set p'. x < 256"
    unfolding sh fst_conv by blast+
  have a: "length angles = 256"
    using gradients_length [of 256 rng'] unfolding g fst_conv .
  note init = PerlinNoise_init_shape [OF sh g]
  have pm: "perm (PerlinNoise_new s) = map (\<lambda>i. p' ! (i mod 256)) [0..<512]"
    and gr: "grad (PerlinNoise_new s) = angles"
    unfolding PerlinNoise_new_def Let_def init by (simp_all del: upt_rec_numeral)
  have "\<forall>x\<in>set (map (\<lambda>i. p' ! (i mod 256)) [0..<512]). x < 256"
  proof
    fix x assume "x \<in> set (map (\<lambda>i. p' ! (i mod 256)) [0..<512])"
    then obtain i where "x = p' ! (i mod 256)" by (auto simp del: upt_rec_numeral)
    moreover have "i mod 256 < length p'" by (simp add: p(1))
    ultimately show "x < 256" using p(2) by simp
  qed
  moreover have "length (map (\<lambda>i. p' ! (i mod 256)) [0..<512]) = 512"
    by (simp del: upt_rec_numeral)
  ultimately show ?thesis using a unfolding pm gr by blast
qed

lemma shuffle_zero:
  assumes "k < length p" and "length p = 256"
  shows "shuffle k p \<lparr>seed = 0\<rparr> = (take 1 p @ replicate k 0 @ drop (Suc k) p, \<lparr>seed = 0\<rparr>)"
  using assms
proof (induction k arbitrary: p)
  case 0
  then show ?case by (cases p) simp_all
next
  case (Suc k)
  have n: "nextInt \<lparr>seed = 0\<rparr> 0 (real (Suc k) + 1) = (- 1, \<lparr>seed = 0\<rparr>)"
    using Suc.prems by (intro nextInt_zero) simp_all
  have step: "shuffle (Suc k) p \<lparr>seed = 0\<rparr> = shuffle k (p[Suc k := 0]) \<lparr>seed = 0\<rparr>"
    by (simp only: shuffle.simps n case_prod_conv) (simp add: swap_u8_def)
  have k: "k < length (p[Suc k := 0])" and l: "length (p[Suc k := 0]) = 256"
    using Suc.prems by simp_all
  have "take 1 (p[Suc k := 0]) = take 1 p" by simp
  moreover have "drop (Suc k) (p[Suc k := 0]) = 0 # drop (Suc (Suc k)) p"
  proof -
    have "drop (Suc k) (p[Suc k := 0])
            = (p[Suc k := 0]) ! Suc k # drop (Suc (Suc k)) (p[Suc k := 0])"
      using Suc.prems(1) by (intro Cons_nth_drop_Suc [symmetric]) simp
    also have "(p[Suc k := 0]) ! Suc k = 0" using Suc.prems(1) by simp
    also have "drop (Suc (Suc k)) (p[Suc k := 0]) = drop (Suc (Suc k)) p"
      by (rule drop_update_cancel) simp
    finally show ?thesis .
  qed
  ultimately show ?case
    unfolding step Suc.IH [OF k l] by (simp add: replicate_app_Cons_same)
qed


lemma PerlinNoise_zero_table: "perm (PerlinNoise_new 0) = replicate 512 0"
proof -
  have sh: "shuffle 255 [0..<256] (SeededRandom_new 0)
              = (take 1 [0..<256] @ replicate 255 0 @ drop (Suc 255) [0..<256], \<lparr>seed = 0\<rparr>)"
    unfolding SeededRandom_new_def by (rule shuffle_zero) (simp_all del: upt_rec_numeral)
  have t: "take 1 [0..<256] = [0::nat]"
    by (simp add: take_Suc_conv_app_nth del: upt_rec_numeral)
  have d: "drop (Suc 255) [0..<256] = ([]::nat list)" by (simp del: upt_rec_numeral)
  have z: "take 1 [0..<256] @ replicate 255 0 @ drop (Suc 255) [0..<256] = replicate 256 (0::nat)"
  proof -
    have "replicate (1 + 255) (0::nat) = replicate 1 0 @ replicate 255 0" by (rule replicate_add)
    then show ?thesis unfolding t d by simp
  qed
  obtain angles rng'' where g: "gradients 256 \<lparr>seed = 0\<rparr> = (angles, rng'')"
    by (cases "gradients 256 \<lparr>seed = 0\<rparr>")
  have "PerlinNoise_init 0 = (map (\<lambda>i. replicate 256 0 ! (i mod 256)) [0..<512], angles)"
    using PerlinNoise_init_shape [OF sh [unfolded z] g] .
  then have "perm (PerlinNoise_new 0) = map (\<lambda>i. replicate 256 0 ! (i mod 256)) [0..<512]"
    by (simp add: PerlinNoise_new_def del: upt_rec_numeral)
  also have "\<dots> = map (\<lambda>i. 0) [0..<512]"
    by (rule map_cong) (simp_all del: upt_rec_numeral)
  also have "\<dots> = replicate 512 0"
    by (simp add: map_replicate_const del: upt_rec_numeral)
  finally show ?thesis .
qed

text \<open>
  Claim C2. For every integer seed with which a \<open>SeededRandom\<close> is constructed and for
  every \<open>n \<ge> 1\<close>, the \<open>n\<close>-th value returned by \<open>next()\<close> lies in the half-open
  interval from 0 to 1. The source breaks the claim at the seed 0, which the program
  passes when the world seed it draws is 0: the state stays 0, every call of \<open>next()\<close>
  returns \<open>(0 - 1) / 2147483646\<close>, \<open>nextInt(0, i + 1)\<close> is \<open>-1\<close>, and the Fisher-Yates
  loop of the noise field leaves a table of zeros.
\<close>

theorem next_seed_zero:
  "nth_value 0 n = - 1 / 2147483646
   \<and> \<not> (0 \<le> nth_value 0 n \<and> nth_value 0 n < 1)
   \<and> fst (nextInt (SeededRandom_new 0) 0 3) = - 1
   \<and> perm (PerlinNoise_new 0) = replicate 512 0"
proof -
  have v: "nth_value 0 n = - 1 / 2147483646"
    by (simp add: nth_value_def SeededRandom_new_def nth_next_zero)
  have i: "fst (nextInt (SeededRandom_new 0) 0 3) = - 1"
    by (simp add: SeededRandom_new_def nextInt_zero)
  show ?thesis using i PerlinNoise_zero_table by (simp add: v)
qed

lemma checker_noise_wellformed:
  "length (perm checker_noise) = 512
   \<and> (\<forall>x\<in>set (perm checker_noise). x < 256)
   \<and> length (grad checker_noise) = 256"
  by (auto simp: checker_noise_def simp del: upt_rec_numeral)

section \<open>Terrain height per biome\<close>

text \<open>
  Claim C4. For every \<open>(x, z)\<close> and every three noise fields: if the biome at \<open>(x, z)\<close>
  is Ocean, \<open>getTerrainHeight\<close> returns exactly \<open>-2\<close>; if it is Plains, it returns exactly
  \<open>(base * 0.5 + 0.5) * 40 + detail * 10 + 5\<close> with
  \<open>base = terrainNoise.fbm(x * 0.001, z * 0.001, 6)\<close> and
  \<open>detail = terrainNoise.fbm(x * 0.005, z * 0.005, 3) * 0.15\<close>.
\<close>

theorem terrain_height_ocean_plains:
  "(getBiome x z tn bn iln = OCEAN \<longrightarrow> getTerrainHeight x z tn bn iln = - 2) \<and>
   (getBiome x z tn bn iln = PLAINS \<longrightarrow>
      getTerrainHeight x z tn bn iln =
        (fbm tn (x * 0.001) (z * 0.001) 6 * 0.5 + 0.5) * 40
          + (fbm tn (x * 0.005) (z * 0.005) 3 * 0.15) * 10 + 5)"
  by (simp add: getTerrainHeight_def Let_def)

theorem terrain_height_ocean_plains_witness:
  "getBiome 5000 0 checker_noise checker_noise checker_noise = OCEAN \<and>
   getTerrainHeight 5000 0 checker_noise checker_noise checker_noise = - 2 \<and>
   getBiome 0 0 checker_noise checker_noise checker_noise = PLAINS \<and>
   getTerrainHeight 0 0 checker_noise checker_noise checker_noise
     = (fbm checker_noise (0 * 0.001) (0 * 0.001) 6 * 0.5 + 0.5) * 40
         + (fbm checker_noise (0 * 0.005) (0 * 0.005) 3 * 0.15) * 10 + 5 \<and>
   getTerrainHeight 0 0 checker_noise checker_noise checker_noise = 25"
  using terrain_height_ocean_plains [of 5000 0 checker_noise checker_noise checker_noise]
    terrain_height_ocean_plains [of 0 0 checker_noise checker_noise checker_noise]
  by (simp add: checker_ocean getBiome_origin getTerrainHeight_origin)

section \<open>The thermal lift query\<close>

text \<open>
  Claim C5. For every query point \<open>(x, y, z)\<close> whose biome is Ocean, \<open>getThermalLift\<close>
  returns exactly \<open>lift = -1.5\<close>, \<open>temperature = 12\<close> and \<open>turbulence = 0.1\<close>, for every
  altitude \<open>y\<close> and whatever the list of thermals is.
\<close>

theorem ocean_sink:
  assumes "getBiomeAt w x z = OCEAN"
  shows "getThermalLift (w\<lparr>thermals := ths\<rparr>) x y z
           = \<lparr>lift = - 1.5, temperature = 12, turbulence = 0.1\<rparr>"
  using assms by (simp add: getThermalLift_def getBiomeAt_def)

theorem ocean_sink_witness:
  "getBiomeAt sample_world 5000 0 = OCEAN \<and>
   getThermalLift sample_world 5000 0 0 = \<lparr>lift = - 1.5, temperature = 12, turbulence = 0.1\<rparr> \<and>
   getThermalLift (sample_world\<lparr>thermals := []\<rparr>) 5000 2000 0
     = \<lparr>lift = - 1.5, temperature = 12, turbulence = 0.1\<rparr>"
proof -
  have ocean: "getBiomeAt sample_world 5000 0 = OCEAN"
    by (simp add: getBiomeAt_def sample_world_def checker_ocean)
  have same: "sample_world\<lparr>thermals := thermals sample_world\<rparr> = sample_world"
    by simp
  show ?thesis
    using ocean ocean_sink [OF ocean, of "thermals sample_world" 0]
      ocean_sink [OF ocean, of "[]" 2000]
    by (simp only: same)
qed

text \<open>
  The lift total is the sum of what each thermal adds, plus the ridge lift in Mountains.
\<close>

lemma lift_loop_Cons:
  "lift_loop x y z (th # ths) acc =
     (if thermal_dist x z th < th_radius th \<and> y < th_maxAlt th
      then lift_loop x y z ths
             \<lparr>lift = lift acc + thermal_contribution x y z th,
              temperature = max (temperature acc) (th_temperature th * thermal_factor x z th),
              turbulence = max (turbulence acc) (th_turbulence th * thermal_factor x z th)\<rparr>
      else lift_loop x y z ths acc)"
proof (cases "thermal_dist x z th < th_radius th \<and> y < th_maxAlt th")
  case True
  then have g: "sqrt ((x - th_x th) * (x - th_x th) + (z - th_z th) * (z - th_z th)) < th_radius th"
    and h: "y < th_maxAlt th"
    by (simp_all only: thermal_dist_def Let_def)
  show ?thesis
    unfolding lift_loop.simps Let_def thermal_contribution_def thermal_dist_def thermal_factor_def
    by (simp only: g h if_True simp_thms)
next
  case False
  then have g: "\<not> (sqrt ((x - th_x th) * (x - th_x th) + (z - th_z th) * (z - th_z th)) < th_radius th
      \<and> y < th_maxAlt th)"
    by (simp only: thermal_dist_def Let_def simp_thms)
  show ?thesis
    unfolding lift_loop.simps Let_def thermal_contribution_def thermal_dist_def thermal_factor_def
    by (simp only: g if_False simp_thms)
qed

lemma lift_loop_lift:
  "lift (lift_loop x y z ths acc) = lift acc + sum_list (map (thermal_contribution x y z) ths)"
proof (induction ths arbitrary: acc)
  case Nil
  then show ?case by simp
next
  case (Cons th ths)
  show ?case
  proof (cases "thermal_dist x z th < th_radius th \<and> y < th_maxAlt th")
    case True
    then have "lift_loop x y z (th # ths) acc = lift_loop x y z ths
             \<lparr>lift = lift acc + thermal_contribution x y z th,
              temperature = max (temperature acc) (th_temperature th * thermal_factor x z th),
              turbulence = max (turbulence acc) (th_turbulence th * thermal_factor x z th)\<rparr>"
      by (simp only: lift_loop_Cons if_True simp_thms)
    then show ?thesis by (simp add: Cons.IH del: lift_loop.simps)
  next
    case False
    then have c: "thermal_contribution x y z th = 0"
      by (simp only: thermal_contribution_def Let_def if_False simp_thms)
    from False have "lift_loop x y z (th # ths) acc = lift_loop x y z ths acc"
      by (simp only: lift_loop_Cons if_False simp_thms)
    then show ?thesis by (simp add: Cons.IH c del: lift_loop.simps)
  qed
qed

lemma getRidgeLift_thermals: "getRidgeLift (w\<lparr>thermals := ths\<rparr>) x y z = getRidgeLift w x y z"
  by (simp add: getRidgeLift_def Let_def)

lemma getThermalLift_lift:
  "getBiomeAt w x z \<noteq> OCEAN \<Longrightarrow>
   lift (getThermalLift w x y z) =
     sum_list (map (thermal_contribution x y z) (thermals w))
       + (if getBiomeAt w x z = MOUNTAINS then getRidgeLift w x y z else 0)"
  by (simp add: getThermalLift_def getBiomeAt_def Let_def lift_loop_lift)

lemma contribution_outside: "th_radius th \<le> thermal_dist x z th \<Longrightarrow> thermal_contribution x y z th = 0"
  by (simp add: thermal_contribution_def Let_def)

lemma contribution_centre:
  assumes "thermal_dist x z th = 0" "0 < th_radius th" "0 \<le> y" "y < th_maxAlt th" "0 < th_strength th"
  shows "0 < thermal_contribution x y z th"
proof -
  have "y / th_maxAlt th < 1" using assms by simp
  then show ?thesis using assms
    by (simp add: thermal_contribution_def Let_def thermal_factor_def)
qed

text \<open>
  A world built from a seed \<open>s\<close> with \<open>0 < s + 700 < 2147483647\<close> holds thermals of
  strength at least 2 and radius at least 40 only.
\<close>

lemma rng_next_valid:
  assumes "valid_rng r" and "rng_next r = (u, r')"
  shows "valid_rng r' \<and> 0 \<le> u \<and> u < 1"
proof -
  have s: "0 < seed r" "seed r mod 2147483647 \<noteq> 0" using assms(1) by (simp_all add: valid_rng_def)
  from rng_next_state_range [OF s] rng_next_unit_interval [OF s] assms(2)
  show ?thesis by (simp add: valid_rng_def)
qed

lemma thermal_attempt_sound:
  assumes "valid_rng (snd st)" and "\<forall>th\<in>set (fst st). sound_thermal th"
  shows "valid_rng (snd (thermal_attempt tn bn iln st))
         \<and> (\<forall>th\<in>set (fst (thermal_attempt tn bn iln st)). sound_thermal th)"
proof -
  obtain u1 r1 where n1: "rng_next (snd st) = (u1, r1)" by (cases "rng_next (snd st)")
  obtain u2 r2 where n2: "rng_next r1 = (u2, r2)" by (cases "rng_next r1")
  obtain u3 r3 where n3: "rng_next r2 = (u3, r3)" by (cases "rng_next r2")
  obtain u4 r4 where n4: "rng_next r3 = (u4, r4)" by (cases "rng_next r3")
  obtain u5 r5 where n5: "rng_next r4 = (u5, r5)" by (cases "rng_next r4")
  obtain u6 r6 where n6: "rng_next r5 = (u6, r6)" by (cases "rng_next r5")
  obtain u7 r7 where n7: "rng_next r6 = (u7, r7)" by (cases "rng_next r6")
  obtain u7' r7' where n7': "rng_next r4 = (u7', r7')" by (cases "rng_next r4")
  note v1 = rng_next_valid [OF assms(1) n1]
  note v2 = rng_next_valid [OF conjunct1 [OF v1] n2]
  note v3 = rng_next_valid [OF conjunct1 [OF v2] n3]
  note v4 = rng_next_valid [OF conjunct1 [OF v3] n4]
  note v5 = rng_next_valid [OF conjunct1 [OF v4] n5]
  note v6 = rng_next_valid [OF conjunct1 [OF v5] n6]
  note v7 = rng_next_valid [OF conjunct1 [OF v6] n7]
  define biome where "biome = getBiome (cos (u1 * pi * 2) * (u2 * 8000)) (sin (u1 * pi * 2) * (u2 * 8000)) tn bn iln"
  show ?thesis
  proof (cases biome)
    case OCEAN
    then show ?thesis using v2 assms(2)
      by (simp add: thermal_attempt_def Let_def n1 n2 biome_def [symmetric])
  next
    case PLAINS
    then show ?thesis using v3 v4 v5 v6 v7 assms(2)
      by (simp add: thermal_attempt_def Let_def n1 n2 n3 n4 n5 n6 n7 biome_def [symmetric]
          sound_thermal_def)
  next
    case MOUNTAINS
    then show ?thesis using v3 v4 v5 v6 v7 assms(2)
      by (simp add: thermal_attempt_def Let_def n1 n2 n3 n4 n5 n6 n7 biome_def [symmetric]
          sound_thermal_def)
  next
    case ISLAND
    then show ?thesis using v3 v4 v5 v6 v7 assms(2)
      by (simp add: thermal_attempt_def Let_def n1 n2 n3 n4 n5 n6 n7 biome_def [symmetric]
          sound_thermal_def)
  next
    case AIRPORT
    then show ?thesis using v3 v4 v5 assms(2)
      by (simp add: thermal_attempt_def Let_def n1 n2 n3 n4 n5 biome_def [symmetric]
          sound_thermal_def)
  qed
qed

lemma thermals_loop_sound:
  "valid_rng (snd st) \<Longrightarrow> \<forall>th\<in>set (fst st). sound_thermal th \<Longrightarrow>
   \<forall>th\<in>set (fst (thermals_loop tn bn iln n st)). sound_thermal th"
proof (induction n arbitrary: st)
  case 0
  then show ?case by simp
next
  case (Suc n)
  from thermal_attempt_sound [OF Suc.prems, of tn bn iln] Suc.IH [of "thermal_attempt tn bn iln st"]
  show ?case by simp
qed

lemma world_thermals_sound:
  assumes "- 700 < s" and "s < 2147482947"
  shows "\<forall>th\<in>set (thermals (World_new sc s)). sound_thermal th"
proof -
  have "valid_rng (snd ([], SeededRandom_new (s + 700)))"
    using assms by (simp add: valid_rng_def SeededRandom_new_def)
  from thermals_loop_sound [OF this, of tn bn iln 80 for tn bn iln]
  show ?thesis by (simp add: World_new_def Let_def generateThermals_def)
qed

text \<open>
  Claim C6. For every thermal with centre \<open>c\<close>, radius \<open>R\<close>, maximum altitude
  \<open>maxAlt\<close> and strength \<open>> 0\<close>, and every non-Ocean query point: the lift total of
  \<open>getThermalLift\<close> is the total without that thermal plus the thermal's contribution;
  the contribution is 0 whenever the planar distance from \<open>c\<close> is \<open>\<ge> R\<close>, and it is
  strictly positive at planar distance 0 whenever the altitude satisfies
  \<open>0 \<le> y < maxAlt\<close>. A radius is positive: the claim's two parts meet at distance 0
  otherwise, and the thermals of a world have radius at least 40.
\<close>

theorem thermal_falloff:
  assumes "getBiomeAt w x z \<noteq> OCEAN" and "thermals w = ths1 @ th # ths2"
    and "0 < th_strength th"
  shows "lift (getThermalLift w x y z)
           = lift (getThermalLift (w\<lparr>thermals := ths1 @ ths2\<rparr>) x y z)
               + thermal_contribution x y z th
         \<and> (th_radius th \<le> thermal_dist x z th \<longrightarrow> thermal_contribution x y z th = 0)
         \<and> (thermal_dist x z th = 0 \<and> 0 < th_radius th \<and> 0 \<le> y \<and> y < th_maxAlt th
              \<longrightarrow> 0 < thermal_contribution x y z th)"
proof -
  have b: "getBiomeAt (w\<lparr>thermals := ths1 @ ths2\<rparr>) x z = getBiomeAt w x z"
    by (simp add: getBiomeAt_def)
  have "lift (getThermalLift w x y z)
           = lift (getThermalLift (w\<lparr>thermals := ths1 @ ths2\<rparr>) x y z)
               + thermal_contribution x y z th"
    using assms(1,2) by (simp add: getThermalLift_lift b getRidgeLift_thermals)
  then show ?thesis using assms(3) contribution_outside contribution_centre by blast
qed

theorem thermal_falloff_witness:
  "getBiomeAt sample_world 0 0 \<noteq> OCEAN
   \<and> thermals sample_world = [] @ sample_thermal 0 0 100 # [sample_thermal 5000 0 100]
   \<and> thermals sample_world = [sample_thermal 0 0 100] @ sample_thermal 5000 0 100 # []
   \<and> 0 < th_strength (sample_thermal 0 0 100)
   \<and> thermal_dist 0 0 (sample_thermal 0 0 100) = 0
   \<and> 0 < th_radius (sample_thermal 0 0 100) \<and> 10 < th_maxAlt (sample_thermal 0 0 100)
   \<and> th_radius (sample_thermal 5000 0 100) \<le> thermal_dist 0 0 (sample_thermal 5000 0 100)
   \<and> thermal_contribution 0 10 0 (sample_thermal 5000 0 100) = 0
   \<and> 0 < thermal_contribution 0 10 0 (sample_thermal 0 0 100)
   \<and> lift (getThermalLift sample_world 0 10 0)
       = lift (getThermalLift (sample_world\<lparr>thermals := [] @ [sample_thermal 5000 0 100]\<rparr>) 0 10 0)
           + thermal_contribution 0 10 0 (sample_thermal 0 0 100)"
proof -
  have b: "getBiomeAt sample_world 0 0 \<noteq> OCEAN"
    by (simp add: getBiomeAt_def getBiome_origin)
  have t1: "thermals sample_world = [] @ sample_thermal 0 0 100 # [sample_thermal 5000 0 100]"
    and t2: "thermals sample_world = [sample_thermal 0 0 100] @ sample_thermal 5000 0 100 # []"
    by (simp_all add: sample_world_def)
  have s: "0 < th_strength (sample_thermal x z r)" for x z r
    by (simp add: sample_thermal_def)
  have d0: "thermal_dist 0 0 (sample_thermal 0 0 100) = 0"
    by (simp add: thermal_dist_def sample_thermal_def)
  have d1: "th_radius (sample_thermal 5000 0 100) \<le> thermal_dist 0 0 (sample_thermal 5000 0 100)"
    by (simp add: thermal_dist_def sample_thermal_def)
  have r: "0 < th_radius (sample_thermal 0 0 100) \<and> 10 < th_maxAlt (sample_thermal 0 0 100)"
    by (simp add: sample_thermal_def)
  show ?thesis
    using thermal_falloff [OF b t1 s, of 10] thermal_falloff [OF b t2 s, of 10] b t1 t2 s d0 d1 r
    by simp
qed

text \<open>
  In a world built from a seed \<open>s\<close> with \<open>0 < s + 700 < 2147483647\<close> (every seed the
  program draws is one) both parts hold of every thermal of the list as they stand.
\<close>

lemma world_thermal_falloff:
  assumes "- 700 < s" and "s < 2147482947" and "th \<in> set (thermals (World_new sc s))"
  shows "(th_radius th \<le> thermal_dist x z th \<longrightarrow> thermal_contribution x y z th = 0)
         \<and> (thermal_dist x z th = 0 \<and> 0 \<le> y \<and> y < th_maxAlt th
              \<longrightarrow> 0 < thermal_contribution x y z th)"
proof -
  have "sound_thermal th" using world_thermals_sound [OF assms(1,2)] assms(3) by blast
  then have "0 < th_radius th" "0 < th_strength th" by (simp_all add: sound_thermal_def)
  then show ?thesis using contribution_outside contribution_centre by blast
qed

section \<open>Determinism of the world\<close>

text \<open>
  Claim C1. For every integer seed, two worlds constructed with that seed, into whatever
  scenes, have the same airports list (positions, elevations, headings, names, order), the
  same thermals list (centres, strengths, radii, maximum altitudes, temperatures,
  turbulence values, order), and equal values of \<open>getHeightAt\<close> and \<open>getBiomeAt\<close> at every
  coordinate. The constructor reads nothing but its seed: no clock, no \<^verbatim>\<open>Math.random\<close>,
  and nothing of the scene it adds the ocean to; the two worlds differ in their scenes
  at most.
\<close>

theorem world_deterministic:
  "airports (World_new scene1 s) = airports (World_new scene2 s)
   \<and> thermals (World_new scene1 s) = thermals (World_new scene2 s)
   \<and> getHeightAt (World_new scene1 s) x z = getHeightAt (World_new scene2 s) x z
   \<and> getBiomeAt (World_new scene1 s) x z = getBiomeAt (World_new scene2 s) x z
   \<and> (World_new scene1 s)\<lparr>scene := sc\<rparr> = (World_new scene2 s)\<lparr>scene := sc\<rparr>"
  by (simp add: World_new_def Let_def getHeightAt_def getBiomeAt_def)

section \<open>The flight integrator\<close>

text \<open>
  Claim C9. Whenever the landed flag or the crashed flag is true, \<open>update(dt, world)\<close>
  leaves every field of the aircraft state unchanged; in particular, after
  \<open>resetAt(airport)\<close> any number of \<open>update\<close> calls changes nothing, until \<open>launch\<close>
  clears the two flags.
\<close>

theorem update_noop_when_grounded:
  "(landed fp \<or> crashed fp \<longrightarrow>
      update dt now world fp = (fp, None) \<and> updates calls fp = fp)
   \<and> updates calls (resetAt airport fp) = resetAt airport fp
   \<and> \<not> landed (launch type (resetAt airport fp))
   \<and> \<not> crashed (launch type (resetAt airport fp))"
proof -
  have noop: "updates cs f = f" if "landed f \<or> crashed f" for cs f
    using that by (induction cs) (auto simp: update_def)
  have "landed (resetAt airport fp)" by (simp add: resetAt_def)
  then have "updates calls (resetAt airport fp) = resetAt airport fp" by (simp add: noop)
  moreover have "\<not> landed (launch type (resetAt airport fp))"
    "\<not> crashed (launch type (resetAt airport fp))"
    by (simp_all add: launch_def Let_def)
  ultimately show ?thesis by (simp add: noop update_def)
qed

theorem update_noop_when_grounded_witness:
  "landed FlightPhysics_new
   \<and> update (1 / 60) 0 (Some sample_world) FlightPhysics_new = (FlightPhysics_new, None)
   \<and> updates [(1 / 60, 0, Some sample_world), (1 / 60, 17, None)] FlightPhysics_new
       = FlightPhysics_new
   \<and> crashed (FlightPhysics_new\<lparr>landed := False, crashed := True\<rparr>)
   \<and> update (1 / 60) 0 None (FlightPhysics_new\<lparr>landed := False, crashed := True\<rparr>)
       = (FlightPhysics_new\<lparr>landed := False, crashed := True\<rparr>, None)"
proof -
  have l: "landed FlightPhysics_new"
    by (simp add: FlightPhysics_new_def)
  have c: "crashed (FlightPhysics_new\<lparr>landed := False, crashed := True\<rparr>)"
    by simp
  show ?thesis
    using l c
      update_noop_when_grounded [of FlightPhysics_new "1 / 60" 0 "Some sample_world"
        "[(1 / 60, 0, Some sample_world), (1 / 60, 17, None)]"]
      update_noop_when_grounded [of "FlightPhysics_new\<lparr>landed := False, crashed := True\<rparr>"
        "1 / 60" 0 None]
    by blast
qed

text \<open>A unit orientation gives a unit forward vector.\<close>

lemma forward_unit:
  assumes "q_length (orientation fp) = 1"
  shows "v_length (forward fp) = 1"
proof -
  obtain a b c d where q: "orientation fp = Quaternion a b c d" by (cases "orientation fp")
  have "sqrt (a * a + b * b + c * c + d * d) = 1" using assms by (simp add: q_length_def q)
  then have n: "a * a + b * b + c * c + d * d = 1" by (simp add: real_sqrt_eq_1_iff)
  define r where "r = applyQuaternion (Vector3 0 0 (- 1)) (orientation fp)"
  have r: "r = Vector3 (- 2 * (d * b + a * c)) (2 * (d * a - b * c))
                 (- 1 + 2 * (a * a) + 2 * (b * b))"
    by (simp add: r_def applyQuaternion_def q Let_def algebra_simps)
  have "vx r * vx r + vy r * vy r + vz r * vz r
          = 4 * ((a * a + b * b) * (d * d + c * c))
              + (1 - 2 * (a * a + b * b)) * (1 - 2 * (a * a + b * b))"
    by (simp add: r algebra_simps)
  also have "d * d + c * c = 1 - (a * a + b * b)" using n by simp
  also have "4 * ((a * a + b * b) * (1 - (a * a + b * b)))
               + (1 - 2 * (a * a + b * b)) * (1 - 2 * (a * a + b * b)) = 1"
    by (simp add: algebra_simps)
  finally have l: "v_length r = 1" by (simp add: v_length_def)
  then show ?thesis
    by (cases r)
       (simp add: forward_def r_def [symmetric] v_normalize_def divideScalar_def
          multiplyScalar_def)
qed

lemma v_length_multiplyScalar: "v_length (multiplyScalar v k) = \<bar>k\<bar> * v_length v"
proof -
  have "(vx v * k) * (vx v * k) + (vy v * k) * (vy v * k) + (vz v * k) * (vz v * k)
      = (k * k) * (vx v * vx v + vy v * vy v + vz v * vz v)" by (simp add: algebra_simps)
  then show ?thesis
    by (simp add: v_length_def multiplyScalar_def real_sqrt_mult)
qed

text \<open>
  Claim C10. \<open>launch(type)\<close> called with any argument other than the exact string
  \<^verbatim>\<open>'cable'\<close> takes the aerotow branch (velocity 25 along the forward direction, which
  is a speed of 25 for a unit orientation; thrust \<open>totalMass * G * 1.2\<close>; timer 15) and
  clears the landed, crashed and cargoSpoiled flags and the heat timer; \<open>launch\<close> has no
  error path, it returns a state for every argument.
\<close>

theorem launch_not_cable:
  assumes "type \<noteq> JSString ''cable''"
  shows "launch type fp =
           fp\<lparr>landed := False, crashed := False, isLaunching := True, cargoSpoiled := False,
              thermalHeatTime := 0, launchThrust := totalMass fp * G * 1.2, launchTimer := 15,
              velocity := multiplyScalar (forward fp) 25\<rparr>
         \<and> (q_length (orientation fp) = 1 \<longrightarrow> speed (launch type fp) = 25)"
proof -
  have eq: "launch type fp =
           fp\<lparr>landed := False, crashed := False, isLaunching := True, cargoSpoiled := False,
              thermalHeatTime := 0, launchThrust := totalMass fp * G * 1.2, launchTimer := 15,
              velocity := multiplyScalar (forward fp) 25\<rparr>"
    using assms by (simp add: launch_def Let_def totalMass_def forward_def)
  have "speed (launch type fp) = 25 * v_length (forward fp)"
    by (simp add: eq speed_def v_length_multiplyScalar)
  then show ?thesis using eq forward_unit by simp
qed

theorem launch_not_cable_witness:
  "JSString ''aerotow'' \<noteq> JSString ''cable'' \<and> JSString ''cabel'' \<noteq> JSString ''cable''
   \<and> JSUndefined \<noteq> JSString ''cable''
   \<and> q_length (orientation FlightPhysics_new) = 1
   \<and> launch (JSString ''cabel'') FlightPhysics_new = launch (JSString ''aerotow'') FlightPhysics_new
   \<and> launch JSUndefined FlightPhysics_new = launch (JSString ''aerotow'') FlightPhysics_new
   \<and> launchTimer (launch (JSString ''cabel'') FlightPhysics_new) = 15
   \<and> launchThrust (launch (JSString ''cabel'') FlightPhysics_new) = 300 * G * 1.2
   \<and> velocity (launch (JSString ''cabel'') FlightPhysics_new) = Vector3 0 0 (- 25)
   \<and> speed (launch (JSString ''cabel'') FlightPhysics_new) = 25
   \<and> \<not> landed (launch (JSString ''cabel'') FlightPhysics_new)"
proof -
  have u: "q_length (orientation FlightPhysics_new) = 1"
    by (simp add: FlightPhysics_new_def q_identity_def q_length_def)
  have f: "forward FlightPhysics_new = Vector3 0 0 (- 1)"
    by (simp add: FlightPhysics_new_def forward_def q_identity_def applyQuaternion_def
        v_normalize_def v_length_def divideScalar_def multiplyScalar_def)
  have m: "totalMass FlightPhysics_new = 300"
    by (simp add: FlightPhysics_new_def totalMass_def defaultConfig_def)
  have n1: "JSString ''cabel'' \<noteq> JSString ''cable''" and n2: "JSString ''aerotow'' \<noteq> JSString ''cable''"
    and n3: "JSUndefined \<noteq> JSString ''cable''"
    by simp_all
  note c = launch_not_cable [OF n1, of FlightPhysics_new]
  note a = launch_not_cable [OF n2, of FlightPhysics_new]
  note d = launch_not_cable [OF n3, of FlightPhysics_new]
  have e1: "launch (JSString ''cabel'') FlightPhysics_new
              = launch (JSString ''aerotow'') FlightPhysics_new"
    and e2: "launch JSUndefined FlightPhysics_new = launch (JSString ''aerotow'') FlightPhysics_new"
    using c a d by simp_all
  have s: "speed (launch (JSString ''cabel'') FlightPhysics_new) = 25"
    using c u by blast
  have fs: "launchTimer (launch (JSString ''cabel'') FlightPhysics_new) = 15"
    "launchThrust (launch (JSString ''cabel'') FlightPhysics_new) = 300 * G * 1.2"
    "velocity (launch (JSString ''cabel'') FlightPhysics_new) = Vector3 0 0 (- 25)"
    "\<not> landed (launch (JSString ''cabel'') FlightPhysics_new)"
    using c by (simp_all add: f m multiplyScalar_def)
  show ?thesis
    using n1 n2 n3 u e1 e2 s fs by blast
qed

section \<open>The stall flag\<close>

lemma update_orientation_fields [simp]:
  "config (update_orientation dt fp) = config fp"
  "velocity (update_orientation dt fp) = velocity fp"
  "position (update_orientation dt fp) = position fp"
  by (simp_all add: update_orientation_def Let_def)

lemma launch_thrust_fields [simp]:
  "config (fst (launch_thrust dt st)) = config (fst st)"
  "velocity (fst (launch_thrust dt st)) = velocity (fst st)"
  "position (fst (launch_thrust dt st)) = position (fst st)"
  by (simp_all add: launch_thrust_def Let_def)

lemma environment_fields [simp]:
  "config (fst (environment dt now world m st)) = config (fst st)"
  "velocity (fst (environment dt now world m st)) = velocity (fst st)"
  "position (fst (environment dt now world m st)) = position (fst st)"
  by (simp_all add: environment_def Let_def split: option.splits)

lemma stall_detection_fields [simp]:
  "config (stall_detection dt aoa v fp) = config fp"
  "velocity (stall_detection dt aoa v fp) = velocity fp"
  "position (stall_detection dt aoa v fp) = position fp"
  "stalling (stall_detection dt aoa v fp) = (\<bar>aoa * 180 / pi\<bar> > 16 \<or> v < stallSpeed (config fp) * 0.9)"
  by (simp_all add: stall_detection_def Let_def)

lemma integrate_fields [simp]:
  "config (integrate dt m forces fp) = config fp"
  "stalling (integrate dt m forces fp) = stalling fp"
  by (simp_all add: integrate_def Let_def)

lemma ground_collision_stalling [simp]:
  "stalling (fst (ground_collision world fp)) = stalling fp"
  by (simp add: ground_collision_def Let_def split: option.splits)

lemma update_flight_stalling:
  "stalling (update_flight dt now world fp) =
     (\<bar>getAngleOfAttack (update_orientation dt fp) * 180 / pi\<bar> > 16
      \<or> speed fp < stallSpeed (config fp) * 0.9)"
  by (simp add: update_flight_def Let_def)

lemma speed_nonneg: "0 \<le> speed fp"
  by (simp add: speed_def v_length_def)

text \<open>
  Claim C7, as amended. After each \<open>update\<close> step entered with the landed and crashed
  flags both false, the stalling flag is true if and only if the absolute angle of attack
  the step computed (after its orientation update, from the velocity on entry) exceeds 16
  degrees or the speed on entry is below 0.9 times the configured stall speed; in
  particular, at attack angle 20 degrees stalling is true for every speed, and at attack
  angle 0 degrees with speed at or above the stall speed stalling is false.
\<close>

theorem stall_flag:
  assumes "\<not> landed fp" and "\<not> crashed fp"
  shows "(stalling (fst (update dt now world fp)) \<longleftrightarrow>
            \<bar>getAngleOfAttack (update_orientation dt fp) * 180 / pi\<bar> > 16
            \<or> speed fp < stallSpeed (config fp) * 0.9)
         \<and> (getAngleOfAttack (update_orientation dt fp) * 180 / pi = 20
              \<longrightarrow> stalling (fst (update dt now world fp)))
         \<and> (getAngleOfAttack (update_orientation dt fp) * 180 / pi = 0
              \<and> stallSpeed (config fp) \<le> speed fp
              \<longrightarrow> \<not> stalling (fst (update dt now world fp)))"
proof -
  have eq: "stalling (fst (update dt now world fp)) \<longleftrightarrow>
            \<bar>getAngleOfAttack (update_orientation dt fp) * 180 / pi\<bar> > 16
            \<or> speed fp < stallSpeed (config fp) * 0.9"
    using assms by (simp add: update_def update_flight_stalling)
  have "\<not> speed fp < stallSpeed (config fp) * 0.9" if "stallSpeed (config fp) \<le> speed fp"
  proof (cases "0 \<le> stallSpeed (config fp)")
    case True
    then have "stallSpeed (config fp) * 0.9 \<le> stallSpeed (config fp)" by simp
    with that show ?thesis by simp
  next
    case False
    then have "stallSpeed (config fp) * 0.9 < 0" by simp
    with speed_nonneg [of fp] show ?thesis by simp
  qed
  note fast = this
  define deg where "deg = getAngleOfAttack (update_orientation dt fp) * 180 / pi"
  have eq': "stalling (fst (update dt now world fp)) \<longleftrightarrow>
               \<bar>deg\<bar> > 16 \<or> speed fp < stallSpeed (config fp) * 0.9"
    using eq unfolding deg_def .
  have c20: "deg = 20 \<longrightarrow> stalling (fst (update dt now world fp))"
    using eq' by simp
  have c0: "deg = 0 \<and> stallSpeed (config fp) \<le> speed fp
              \<longrightarrow> \<not> stalling (fst (update dt now world fp))"
    using eq' fast by simp
  show ?thesis using eq' c20 c0 unfolding deg_def by blast
qed


text \<open>Two flights with neutral controls: one at attack angle 20 degrees, one at 0.\<close>

lemma v_length_scaled_trig:
  assumes "0 \<le> k"
  shows "v_length (Vector3 0 (- (k * sin t)) (- (k * cos t))) = k"
proof -
  have one: "sin t * sin t + cos t * cos t = 1"
    using sin_cos_squared_add [of t] by (simp add: power2_eq_square)
  have "(k * sin t) * (k * sin t) + (k * cos t) * (k * cos t)
          = (k * k) * (sin t * sin t + cos t * cos t)"
    by algebra
  then have "(k * sin t) * (k * sin t) + (k * cos t) * (k * cos t) = k * k"
    by (simp only: one mult_1_right)
  then show ?thesis using assms by (simp add: v_length_def)
qed

lemma update_orientation_neutral:
  assumes "pitchInput fp = 0" "rollInput fp = 0" "yawInput fp = 0" "orientation fp = q_identity"
  shows "orientation (update_orientation dt fp) = q_identity"
  using assms
  by (simp add: update_orientation_def Let_def multiplyScalar_def setFromEuler_def q_multiply_def
      q_identity_def q_normalize_def q_length_def)

lemma axes_identity:
  assumes "orientation fp = q_identity"
  shows "forward fp = Vector3 0 0 (- 1)" "right fp = Vector3 1 0 0" "up fp = Vector3 0 1 0"
  using assms
  by (simp_all add: forward_def right_def up_def q_identity_def applyQuaternion_def v_normalize_def
      v_length_def divideScalar_def multiplyScalar_def)

lemma aoa_twenty:
  "getAngleOfAttack (update_orientation dt
      (sample_flight p (Vector3 0 (- (20 * sin (pi / 9))) (- (20 * cos (pi / 9)))))) * 180 / pi = 20"
proof -
  define fp where "fp = update_orientation dt
      (sample_flight p (Vector3 0 (- (20 * sin (pi / 9))) (- (20 * cos (pi / 9)))))"
  have o: "orientation fp = q_identity"
    unfolding fp_def
    by (rule update_orientation_neutral) (simp_all add: sample_flight_def FlightPhysics_new_def)
  have v: "velocity fp = Vector3 0 (- (20 * sin (pi / 9))) (- (20 * cos (pi / 9)))"
    by (simp add: fp_def sample_flight_def)
  have l: "v_length (velocity fp) = 20"
    unfolding v by (rule v_length_scaled_trig) simp
  have n: "v_normalize (velocity fp) = Vector3 0 (- sin (pi / 9)) (- cos (pi / 9))"
    by (simp add: v_normalize_def l divideScalar_def multiplyScalar_def) (simp add: v)
  have s: "0 < sin (pi / 9)" by (rule sin_gt_zero) simp_all
  have a: "arccos (cos (pi / 9)) = pi / 9" by (rule arccos_cos) simp_all
  have e: "getAngleOfAttack fp = pi / 9"
    by (simp add: getAngleOfAttack_def speed_def l n axes_identity [OF o] Let_def v_dot_def
        v_cross_def s a)
  have "(pi / 9) * 180 / pi = (20::real)" by simp
  then have "getAngleOfAttack fp * 180 / pi = 20" by (simp only: e)
  then show ?thesis unfolding fp_def .
qed

lemma aoa_zero:
  "getAngleOfAttack (update_orientation dt (sample_flight p (Vector3 0 0 (- 20)))) = 0"
proof -
  define fp where "fp = update_orientation dt (sample_flight p (Vector3 0 0 (- 20)))"
  have o: "orientation fp = q_identity"
    unfolding fp_def
    by (rule update_orientation_neutral) (simp_all add: sample_flight_def FlightPhysics_new_def)
  have v: "velocity fp = Vector3 0 0 (- 20)"
    by (simp add: fp_def sample_flight_def)
  have l: "v_length (velocity fp) = 20"
    by (simp add: v v_length_def)
  have n: "v_normalize (velocity fp) = Vector3 0 0 (- 1)"
    by (simp add: v_normalize_def l divideScalar_def multiplyScalar_def) (simp add: v)
  have "getAngleOfAttack fp = 0"
    by (simp add: getAngleOfAttack_def speed_def l n axes_identity [OF o] Let_def v_dot_def
        v_cross_def)
  then show ?thesis unfolding fp_def .
qed

theorem stall_flag_witness:
  "\<not> landed (sample_flight (Vector3 0 300 0) (Vector3 0 (- (20 * sin (pi / 9))) (- (20 * cos (pi / 9)))))
   \<and> \<not> crashed (sample_flight (Vector3 0 300 0) (Vector3 0 (- (20 * sin (pi / 9))) (- (20 * cos (pi / 9)))))
   \<and> getAngleOfAttack (update_orientation (1 / 60)
        (sample_flight (Vector3 0 300 0) (Vector3 0 (- (20 * sin (pi / 9))) (- (20 * cos (pi / 9))))))
        * 180 / pi = 20
   \<and> stalling (fst (update (1 / 60) 0 None
        (sample_flight (Vector3 0 300 0) (Vector3 0 (- (20 * sin (pi / 9))) (- (20 * cos (pi / 9)))))))
   \<and> \<not> landed (sample_flight (Vector3 0 300 0) (Vector3 0 0 (- 20)))
   \<and> \<not> crashed (sample_flight (Vector3 0 300 0) (Vector3 0 0 (- 20)))
   \<and> getAngleOfAttack (update_orientation (1 / 60)
        (sample_flight (Vector3 0 300 0) (Vector3 0 0 (- 20)))) * 180 / pi = 0
   \<and> stallSpeed (config (sample_flight (Vector3 0 300 0) (Vector3 0 0 (- 20))))
        \<le> speed (sample_flight (Vector3 0 300 0) (Vector3 0 0 (- 20)))
   \<and> \<not> stalling (fst (update (1 / 60) 0 None (sample_flight (Vector3 0 300 0) (Vector3 0 0 (- 20)))))"
proof -
  have f: "\<not> landed (sample_flight p v)" and g: "\<not> crashed (sample_flight p v)" for p v
    by (simp_all add: sample_flight_def FlightPhysics_new_def)
  have sp: "stallSpeed (config (sample_flight (Vector3 0 300 0) (Vector3 0 0 (- 20))))
        \<le> speed (sample_flight (Vector3 0 300 0) (Vector3 0 0 (- 20)))"
    by (simp add: sample_flight_def FlightPhysics_new_def defaultConfig_def speed_def v_length_def)
  have z: "getAngleOfAttack (update_orientation (1 / 60)
        (sample_flight (Vector3 0 300 0) (Vector3 0 0 (- 20)))) * 180 / pi = 0"
    by (simp add: aoa_zero)
  show ?thesis
    using f g sp z aoa_twenty [of "1 / 60" "Vector3 0 300 0"]
      stall_flag [of "sample_flight (Vector3 0 300 0)
          (Vector3 0 (- (20 * sin (pi / 9))) (- (20 * cos (pi / 9))))" "1 / 60" 0 None, OF f g]
      stall_flag [of "sample_flight (Vector3 0 300 0) (Vector3 0 0 (- 20))" "1 / 60" 0 None,
        OF f g]
    by blast
qed

text \<open>
  Claim C7 as stated fails for a step that \<open>update\<close> skips: after
  \<open>resetAt(airport)\<close> the aircraft is landed with speed 0, below 0.9 times the stall
  speed, and \<open>update\<close> returns at once, leaving the stalling flag false.
\<close>

theorem stall_flag_landed_counterexample:
  "landed (resetAt sample_airport FlightPhysics_new)
   \<and> \<not> stalling (fst (update (1 / 60) 0 (Some sample_world)
                        (resetAt sample_airport FlightPhysics_new)))
   \<and> speed (fst (update (1 / 60) 0 (Some sample_world)
                  (resetAt sample_airport FlightPhysics_new)))
       < stallSpeed (config (fst (update (1 / 60) 0 (Some sample_world)
                                    (resetAt sample_airport FlightPhysics_new)))) * 0.9
   \<and> \<not> (stalling (fst (update (1 / 60) 0 (Some sample_world)
                           (resetAt sample_airport FlightPhysics_new)))
         \<longleftrightarrow> \<bar>getAngleOfAttack (resetAt sample_airport FlightPhysics_new) * 180 / pi\<bar> > 16
              \<or> speed (resetAt sample_airport FlightPhysics_new)
                   < stallSpeed (config (resetAt sample_airport FlightPhysics_new)) * 0.9)"
  by (simp add: update_def resetAt_def FlightPhysics_new_def speed_def v_length_def
      defaultConfig_def)

section \<open>Airport placement\<close>

lemma planar_dist_sym: "planar_dist a b = planar_dist b a"
  by (simp add: planar_dist_def power2_commute)

lemma far_from_all_iff: "far_from_all d a bs \<longleftrightarrow> (\<forall>b\<in>set bs. d \<le> planar_dist a b)"
  by (induction bs) auto

lemma separated_append:
  "separated d (as @ [a]) \<longleftrightarrow> separated d as \<and> (\<forall>b\<in>set as. d \<le> planar_dist b a)"
  by (induction as) (auto simp: far_from_all_iff)

lemma separated_nth:
  "separated d as \<longleftrightarrow> (\<forall>i j. i < j \<and> j < length as \<longrightarrow> d \<le> planar_dist (as ! i) (as ! j))"
proof (induction as)
  case Nil
  then show ?case by simp
next
  case (Cons a as)
  show ?case
  proof
    assume s: "separated d (a # as)"
    show "\<forall>i j. i < j \<and> j < length (a # as) \<longrightarrow> d \<le> planar_dist ((a # as) ! i) ((a # as) ! j)"
    proof (intro allI impI)
      fix i j assume ij: "i < j \<and> j < length (a # as)"
      then obtain j' where j: "j = Suc j'" by (cases j) auto
      show "d \<le> planar_dist ((a # as) ! i) ((a # as) ! j)"
      proof (cases i)
        case 0
        with s ij j show ?thesis by (auto simp: far_from_all_iff)
      next
        case (Suc i')
        with s ij j Cons.IH show ?thesis by auto
      qed
    qed
  next
    assume r: "\<forall>i j. i < j \<and> j < length (a # as) \<longrightarrow> d \<le> planar_dist ((a # as) ! i) ((a # as) ! j)"
    have "far_from_all d a as"
      unfolding far_from_all_iff
    proof
      fix b assume "b \<in> set as"
      then obtain k where "k < length as" "as ! k = b" by (auto simp: in_set_conv_nth)
      with r [rule_format, of 0 "Suc k"] show "d \<le> planar_dist a b" by simp
    qed
    moreover have "separated d as"
      unfolding Cons.IH
    proof (intro allI impI)
      fix i j assume "i < j \<and> j < length as"
      with r [rule_format, of "Suc i" "Suc j"] show "d \<le> planar_dist (as ! i) (as ! j)" by simp
    qed
    ultimately show "separated d (a # as)" by simp
  qed
qed

lemma tooClose_iff:
  "tooClose ax az d aps \<longleftrightarrow> (\<exists>b\<in>set aps. sqrt ((ax - ap_x b) ^ 2 + (az - ap_z b) ^ 2) < d)"
  by (induction aps) (auto simp: Let_def)

lemma createAirportData_xz:
  "ap_x (fst (createAirportData tn bn iln x z rng i)) = x"
  "ap_z (fst (createAirportData tn bn iln x z rng i)) = z"
  by (simp_all add: createAirportData_def Let_def split: prod.splits)

lemma airport_attempt_inv:
  assumes "airports_inv (fst st)" "length (fst st) < 12"
  shows "airports_inv (fst (airport_attempt tn bn iln st))"
proof -
  obtain u1 rng1 where r1: "rng_next (snd st) = (u1, rng1)" by (cases "rng_next (snd st)")
  obtain u2 rng2 where r2: "rng_next rng1 = (u2, rng2)" by (cases "rng_next rng1")
  define ax where "ax = cos (u1 * pi * 2) * (1500 + u2 * 6000)"
  define az where "az = sin (u1 * pi * 2) * (1500 + u2 * 6000)"
  obtain ap rng3 where r3: "createAirportData tn bn iln ax az rng2 (length (fst st)) = (ap, rng3)"
    by (cases "createAirportData tn bn iln ax az rng2 (length (fst st))")
  have xz: "ap_x ap = ax" "ap_z ap = az"
    using createAirportData_xz [of tn bn iln ax az rng2 "length (fst st)"] r3 by simp_all
  have cases: "fst (airport_attempt tn bn iln st) = fst st
      \<or> (\<not> tooClose ax az 1500 (fst st) \<and> fst (airport_attempt tn bn iln st) = fst st @ [ap])"
    by (simp add: airport_attempt_def Let_def r1 r2 r3 ax_def [symmetric] az_def [symmetric])
  then show ?thesis
  proof
    assume "fst (airport_attempt tn bn iln st) = fst st"
    with assms(1) show ?thesis by simp
  next
    assume a: "\<not> tooClose ax az 1500 (fst st) \<and> fst (airport_attempt tn bn iln st) = fst st @ [ap]"
    have pd: "planar_dist b ap = sqrt ((ax - ap_x b) ^ 2 + (az - ap_z b) ^ 2)" for b
      using planar_dist_sym [of b ap] by (simp add: planar_dist_def xz)
    from a have "\<forall>b\<in>set (fst st). 1500 \<le> planar_dist b ap"
      by (auto simp: tooClose_iff pd not_less)
    with a assms show ?thesis
      by (auto simp: airports_inv_def separated_append)
  qed
qed

lemma airports_loop_inv:
  "airports_inv (fst st) \<Longrightarrow> airports_inv (fst (airports_loop tn bn iln st attempts))"
proof (induction tn bn iln st attempts rule: airports_loop.induct)
  case (1 tn bn iln st attempts)
  show ?case
  proof (cases "length (fst st) < 12 \<and> attempts < 500")
    case True
    then have step: "airports_loop tn bn iln st attempts
        = airports_loop tn bn iln (airport_attempt tn bn iln st) (Suc attempts)"
      by (subst airports_loop.simps) (simp only: if_True simp_thms)
    have "airports_inv (fst (airport_attempt tn bn iln st))"
      using True "1.prems" by (simp add: airport_attempt_inv)
    with True "1.IH" show ?thesis by (simp only: step)
  next
    case False
    then have "airports_loop tn bn iln st attempts = st"
      by (subst airports_loop.simps) (simp only: if_False simp_thms)
    with "1.prems" show ?thesis by simp
  qed
qed

lemma generateAirports_inv: "airports_inv (generateAirports s tn bn iln)"
proof -
  obtain first rng' where f: "createAirportData tn bn iln 0 0 (SeededRandom_new (s + 500)) 0 = (first, rng')"
    by (cases "createAirportData tn bn iln 0 0 (SeededRandom_new (s + 500)) 0")
  have "ap_x first = 0" "ap_z first = 0"
    using createAirportData_xz [of tn bn iln 0 0 "SeededRandom_new (s + 500)" 0] f by simp_all
  then have "airports_inv (fst ([first], rng'))" by (simp add: airports_inv_def)
  then show ?thesis
    by (simp add: generateAirports_def Let_def f airports_loop_inv)
qed

lemma separated_examples:
  "separated 1500 [sample_airport, sample_airport\<lparr>ap_x := 1500\<rparr>]"
  "\<not> separated 1500 [sample_airport, sample_airport\<lparr>ap_x := 1499\<rparr>]"
  by (simp_all add: planar_dist_def sample_airport_def)

text \<open>
  Claim C3. In every world constructed from any seed, the airports list holds at most 12
  airports, the first airport is located at \<open>(0, 0)\<close>, and every two distinct airports
  are separated by at least 1500 units of planar distance (\<open>separated\<close>, which by
  \<open>separated_nth\<close> says so for every two positions of the list).
\<close>

theorem airports_invariant:
  "length (airports (World_new sc s)) \<le> 12
   \<and> airports (World_new sc s) \<noteq> []
   \<and> ap_x (hd (airports (World_new sc s))) = 0 \<and> ap_z (hd (airports (World_new sc s))) = 0
   \<and> separated 1500 (airports (World_new sc s))"
  using generateAirports_inv [of s "PerlinNoise_new s" "PerlinNoise_new (s + 100)" "PerlinNoise_new (s + 200)"]
  by (simp add: World_new_def Let_def airports_inv_def)

section \<open>Landing and crash\<close>

lemma phase_flags [simp]:
  "crashed (update_orientation dt fp) = crashed fp"
  "crashed (fst (launch_thrust dt st)) = crashed (fst st)"
  "crashed (fst (environment dt now world m st)) = crashed (fst st)"
  "crashed (stall_detection dt aoa v fp) = crashed fp"
  "crashed (integrate dt m forces fp) = crashed fp"
  by (simp_all add: update_orientation_def launch_thrust_def environment_def stall_detection_def
      integrate_def Let_def split: option.splits)

lemma update_flight_crashed: "crashed (update_flight dt now world fp) = crashed fp"
  by (simp add: update_flight_def Let_def)

lemma addScaledVector_zero [simp]: "addScaledVector v a 0 = v"
  by (cases v) (simp add: addScaledVector_def)

lemma integrate_zero:
  "position (integrate 0 m forces fp) = position fp"
  "speed fp \<le> maxSpeed (config fp) \<Longrightarrow> velocity (integrate 0 m forces fp) = velocity fp"
  by (simp_all add: integrate_def Let_def speed_def)

lemma update_flight_zero:
  "position (update_flight 0 now world fp) = position fp"
  "speed fp \<le> maxSpeed (config fp) \<Longrightarrow> velocity (update_flight 0 now world fp) = velocity fp"
  by (simp_all add: update_flight_def Let_def integrate_zero speed_def)

lemma ground_landing:
  assumes "vy (position fp) \<le> getHeightAt w (vx (position fp)) (vz (position fp)) + 1"
    and "getAirportAt w (vx (position fp)) (vy (position fp)) (vz (position fp)) = Some ap"
    and "\<bar>verticalSpeed fp\<bar> < 2" and "speedKmh fp < 40"
  shows "(snd (ground_collision (Some w) fp) = Some ''landing''
            \<or> snd (ground_collision (Some w) fp) = Some ''landed'')
         \<and> crashed (fst (ground_collision (Some w) fp)) = crashed fp"
  using assms by (simp add: ground_collision_def Let_def)

lemma ground_crash:
  assumes "vy (position fp) \<le> getHeightAt w (vx (position fp)) (vz (position fp)) + 1"
    and "\<not> speedKmh fp < 40"
  shows "snd (ground_collision (Some w) fp) = Some ''crashed''
         \<and> crashed (fst (ground_collision (Some w) fp))
         \<and> velocity (fst (ground_collision (Some w) fp)) = Vector3 0 0 0"
  using assms by (simp add: ground_collision_def Let_def)

lemma speed_from_components:
  assumes "sqrt ((vx (velocity fp))\<^sup>2 + (vz (velocity fp))\<^sup>2) = h" and "\<bar>vy (velocity fp)\<bar> = u"
  shows "speed fp = sqrt (h\<^sup>2 + u\<^sup>2)"
proof -
  have "(vx (velocity fp))\<^sup>2 + (vz (velocity fp))\<^sup>2 = h\<^sup>2"
    using assms(1) by (metis real_sqrt_pow2 sum_power2_ge_zero)
  moreover have "(vy (velocity fp))\<^sup>2 = u\<^sup>2" using assms(2) by (metis power2_abs)
  ultimately have "vx (velocity fp) * vx (velocity fp) + vy (velocity fp) * vy (velocity fp)
      + vz (velocity fp) * vz (velocity fp) = h\<^sup>2 + u\<^sup>2"
    by (simp add: power2_eq_square)
  then show ?thesis by (simp add: speed_def v_length_def)
qed

lemma horizontal_le_speed:
  "sqrt ((vx (velocity fp))\<^sup>2 + (vz (velocity fp))\<^sup>2) \<le> speed fp"
  by (simp add: speed_def v_length_def power2_eq_square)

text \<open>
  Claim C8. When, after integration, the aircraft's altitude is at or below the terrain
  height + 1 and it is over an airport with absolute vertical speed 1.0 m/s: with
  horizontal speed 30 km/h \<open>update\<close> takes the landing branch (it returns \<^verbatim>\<open>'landing'\<close> or
  \<^verbatim>\<open>'landed'\<close> and does not set crashed); with horizontal speed 60 km/h it sets crashed,
  zeroes the velocity and returns \<^verbatim>\<open>'crashed'\<close>. The speed the source compares with 40
  (its \<^verbatim>\<open>hSpeed\<close>) is the full speed in km/h; the statement holds both when that speed
  and when the speed in the horizontal plane has the given value.
\<close>

theorem landing_or_crash:
  assumes "\<not> landed fp" and "\<not> crashed fp"
    and "fp1 = update_flight dt now (Some w) fp"
    and "altitude fp1 \<le> getHeightAt w (vx (position fp1)) (vz (position fp1)) + 1"
    and "getAirportAt w (vx (position fp1)) (vy (position fp1)) (vz (position fp1)) = Some ap"
    and "\<bar>verticalSpeed fp1\<bar> = 1"
  shows "(speedKmh fp1 = 30 \<or> sqrt ((vx (velocity fp1))\<^sup>2 + (vz (velocity fp1))\<^sup>2) * 3.6 = 30
            \<longrightarrow> (snd (update dt now (Some w) fp) = Some ''landing''
                   \<or> snd (update dt now (Some w) fp) = Some ''landed'')
                \<and> \<not> crashed (fst (update dt now (Some w) fp)))
         \<and> (speedKmh fp1 = 60 \<or> sqrt ((vx (velocity fp1))\<^sup>2 + (vz (velocity fp1))\<^sup>2) * 3.6 = 60
            \<longrightarrow> crashed (fst (update dt now (Some w) fp))
                \<and> velocity (fst (update dt now (Some w) fp)) = Vector3 0 0 0
                \<and> snd (update dt now (Some w) fp) = Some ''crashed'')"
proof -
  have u: "update dt now (Some w) fp = ground_collision (Some w) fp1"
    using assms(1,2,3) by (simp add: update_def)
  have alt: "vy (position fp1) \<le> getHeightAt w (vx (position fp1)) (vz (position fp1)) + 1"
    using assms(4) by (simp add: altitude_def)
  have nc: "\<not> crashed fp1" using assms(2,3) by (simp add: update_flight_crashed)
  have vs: "\<bar>verticalSpeed fp1\<bar> < 2" using assms(6) by simp
  have slow: "speedKmh fp1 < 40"
    if "speedKmh fp1 = 30 \<or> sqrt ((vx (velocity fp1))\<^sup>2 + (vz (velocity fp1))\<^sup>2) * 3.6 = 30"
    using that
  proof
    assume "speedKmh fp1 = 30" then show ?thesis by simp
  next
    assume "sqrt ((vx (velocity fp1))\<^sup>2 + (vz (velocity fp1))\<^sup>2) * 3.6 = 30"
    then have h: "sqrt ((vx (velocity fp1))\<^sup>2 + (vz (velocity fp1))\<^sup>2) = 25 / 3" by simp
    have vv: "\<bar>vy (velocity fp1)\<bar> = 1" using assms(6) by (simp add: verticalSpeed_def)
    have "speed fp1 = sqrt ((25 / 3)\<^sup>2 + 1\<^sup>2)"
      by (rule speed_from_components [OF h vv])
    also have "\<dots> < sqrt ((100 / 9)\<^sup>2)" by (rule real_sqrt_less_mono) (simp add: power2_eq_square)
    also have "\<dots> = 100 / 9" by simp
    finally show ?thesis by (simp add: speedKmh_def)
  qed
  have fast: "\<not> speedKmh fp1 < 40"
    if "speedKmh fp1 = 60 \<or> sqrt ((vx (velocity fp1))\<^sup>2 + (vz (velocity fp1))\<^sup>2) * 3.6 = 60"
    using that
  proof
    assume "speedKmh fp1 = 60" then show ?thesis by simp
  next
    assume "sqrt ((vx (velocity fp1))\<^sup>2 + (vz (velocity fp1))\<^sup>2) * 3.6 = 60"
    then have "sqrt ((vx (velocity fp1))\<^sup>2 + (vz (velocity fp1))\<^sup>2) = 50 / 3" by simp
    with horizontal_le_speed [of fp1] have "50 / 3 \<le> speed fp1" by simp
    then show ?thesis by (simp add: speedKmh_def)
  qed
  show ?thesis
    using ground_landing [OF alt assms(5) vs] ground_crash [OF alt] slow fast nc
    unfolding u by blast
qed


lemma landing_sample_after:
  assumes "0 \<le> h" "h \<le> 50 / 3"
  shows "position (update_flight 0 0 (Some sample_world) (landing_sample h)) = Vector3 0 25.5 0"
    and "velocity (update_flight 0 0 (Some sample_world) (landing_sample h)) = Vector3 h (- 1) 0"
proof -
  show "position (update_flight 0 0 (Some sample_world) (landing_sample h)) = Vector3 0 25.5 0"
    by (simp add: update_flight_zero landing_sample_def sample_flight_def)
  have "h * h \<le> (50 / 3) * (50 / 3)" using assms by (intro mult_mono) simp_all
  then have "h * h + 1 \<le> (625 / 9)\<^sup>2" by (simp add: power2_eq_square)
  then have "sqrt (h * h + 1) \<le> 625 / 9" by (intro real_le_lsqrt) simp_all
  then have "speed (landing_sample h) \<le> maxSpeed (config (landing_sample h))"
    by (simp add: speed_def v_length_def landing_sample_def sample_flight_def FlightPhysics_new_def
        defaultConfig_def)
  then show "velocity (update_flight 0 0 (Some sample_world) (landing_sample h)) = Vector3 h (- 1) 0"
    by (simp add: update_flight_zero) (simp add: landing_sample_def sample_flight_def)
qed

lemma sample_world_origin:
  "getHeightAt sample_world 0 0 = 25"
  "getAirportAt sample_world 0 25.5 0 = Some sample_airport"
  by (simp_all add: getHeightAt_def getTerrainHeight_origin getAirportAt_def sample_world_def
      sample_airport_def)

theorem landing_or_crash_witness:
  "\<not> landed (landing_sample (25 / 3)) \<and> \<not> crashed (landing_sample (25 / 3))
   \<and> altitude (update_flight 0 0 (Some sample_world) (landing_sample (25 / 3)))
       \<le> getHeightAt sample_world 0 0 + 1
   \<and> getAirportAt sample_world 0 25.5 0 = Some sample_airport
   \<and> \<bar>verticalSpeed (update_flight 0 0 (Some sample_world) (landing_sample (25 / 3)))\<bar> = 1
   \<and> sqrt ((vx (velocity (update_flight 0 0 (Some sample_world) (landing_sample (25 / 3)))))\<^sup>2
         + (vz (velocity (update_flight 0 0 (Some sample_world) (landing_sample (25 / 3)))))\<^sup>2) * 3.6 = 30
   \<and> (snd (update 0 0 (Some sample_world) (landing_sample (25 / 3))) = Some ''landing''
        \<or> snd (update 0 0 (Some sample_world) (landing_sample (25 / 3))) = Some ''landed'')
   \<and> \<not> crashed (fst (update 0 0 (Some sample_world) (landing_sample (25 / 3))))
   \<and> sqrt ((vx (velocity (update_flight 0 0 (Some sample_world) (landing_sample (50 / 3)))))\<^sup>2
         + (vz (velocity (update_flight 0 0 (Some sample_world) (landing_sample (50 / 3)))))\<^sup>2) * 3.6 = 60
   \<and> crashed (fst (update 0 0 (Some sample_world) (landing_sample (50 / 3))))
   \<and> velocity (fst (update 0 0 (Some sample_world) (landing_sample (50 / 3)))) = Vector3 0 0 0
   \<and> snd (update 0 0 (Some sample_world) (landing_sample (50 / 3))) = Some ''crashed''"
proof -
  have f: "\<not> landed (landing_sample h)" and g: "\<not> crashed (landing_sample h)" for h
    by (simp_all add: landing_sample_def sample_flight_def FlightPhysics_new_def)
  note a = landing_sample_after [of "25 / 3", simplified]
  note b = landing_sample_after [of "50 / 3", simplified]
  have alt: "altitude (update_flight 0 0 (Some sample_world) (landing_sample h))
      \<le> getHeightAt sample_world
           (vx (position (update_flight 0 0 (Some sample_world) (landing_sample h))))
           (vz (position (update_flight 0 0 (Some sample_world) (landing_sample h)))) + 1"
    if "0 \<le> h" "h \<le> 50 / 3" for h
    using landing_sample_after(1) [OF that] by (simp add: altitude_def sample_world_origin)
  have ap: "getAirportAt sample_world
           (vx (position (update_flight 0 0 (Some sample_world) (landing_sample h))))
           (vy (position (update_flight 0 0 (Some sample_world) (landing_sample h))))
           (vz (position (update_flight 0 0 (Some sample_world) (landing_sample h)))) = Some sample_airport"
    if "0 \<le> h" "h \<le> 50 / 3" for h
    using landing_sample_after(1) [OF that] sample_world_origin(2) by simp
  have vs: "\<bar>verticalSpeed (update_flight 0 0 (Some sample_world) (landing_sample h))\<bar> = 1"
    if "0 \<le> h" "h \<le> 50 / 3" for h
    using landing_sample_after(2) [OF that] by (simp add: verticalSpeed_def)
  have hs: "sqrt ((vx (velocity (update_flight 0 0 (Some sample_world) (landing_sample h))))\<^sup>2
         + (vz (velocity (update_flight 0 0 (Some sample_world) (landing_sample h))))\<^sup>2) * 3.6 = h * 3.6"
    if "0 \<le> h" "h \<le> 50 / 3" for h
    using landing_sample_after(2) [OF that] that by simp
  have r1: "(0::real) \<le> 25 / 3" "(25::real) / 3 \<le> 50 / 3" and r2: "(0::real) \<le> 50 / 3" "(50::real) / 3 \<le> 50 / 3"
    by simp_all
  note t1 = landing_or_crash [OF f g refl alt [OF r1] ap [OF r1] vs [OF r1]]
  note t2 = landing_or_crash [OF f g refl alt [OF r2] ap [OF r2] vs [OF r2]]
  have h1: "sqrt ((vx (velocity (update_flight 0 0 (Some sample_world) (landing_sample (25 / 3)))))\<^sup>2
         + (vz (velocity (update_flight 0 0 (Some sample_world) (landing_sample (25 / 3)))))\<^sup>2) * 3.6 = 30"
    using hs [OF r1] by simp
  have h2: "sqrt ((vx (velocity (update_flight 0 0 (Some sample_world) (landing_sample (50 / 3)))))\<^sup>2
         + (vz (velocity (update_flight 0 0 (Some sample_world) (landing_sample (50 / 3)))))\<^sup>2) * 3.6 = 60"
    using hs [OF r2] by simp
  have alt0: "altitude (update_flight 0 0 (Some sample_world) (landing_sample (25 / 3)))
       \<le> getHeightAt sample_world 0 0 + 1"
    using landing_sample_after(1) [OF r1] by (simp add: altitude_def sample_world_origin)
  show ?thesis
    using f g alt0 sample_world_origin(2) vs [OF r1] h1 h2 t1 t2 by blast
qed

end
